theory Spec2Isabelle
  imports Main "HOL-Library.Word" "HOL-Library.AList"
begin

unbundle bit_operations_syntax

section \<open>Data model\<close>

text \<open>
  The host-side execution engine of the WASM virtual machine: the data of
  \<^verbatim>\<open>vmcommon\<close> (inputs, outputs), the seven contexts of the host with their
  state stacks, and the collaborators that are outside the engine (blockchain hook,
  executor, parsers, gas schedule, feature flags).
\<close>

type_synonym byte = "8 word"
type_synonym bytes = "byte list"

text \<open>Go's \<^verbatim>\<open>[]byte(s)\<close> for a string of single-byte characters.\<close>

definition bytesOfString :: "string \<Rightarrow> bytes" where
  "bytesOfString str = map of_char str"

text \<open>
  The errors of package \<^verbatim>\<open>arwen\<close> that the modelled functions name, and
  \<open>ErrExternal\<close> for an error value that comes from a collaborator (the blockchain
  hook, the executor, a parser).
\<close>

datatype error =
    ErrUpgradeNotAllowed
  | ErrNilContract
  | ErrInvalidUpgradeArguments
  | ErrContractInvalid
  | ErrNotEnoughGas
  | ErrContractNotFound
  | ErrExecutionFailed
  | ErrReturnCodeNotOk
  | ErrInitFuncCalledInRun
  | ErrBuiltinCallOnSameContextDisallowed
  | ErrInvalidCallOnReadOnlyMode
  | ErrFailedTransfer
  | ErrDeploymentOverExistingAccount
  | ErrNegativeLength
  | ErrInvalidBuiltInFunctionCall
  | ErrSyncExecutionNotInSameShard
  | ErrTransferInsufficientFunds
  | ErrNilCallbackFunction
  | ErrExternal string

datatype ReturnCode =
    Ok | FunctionNotFound | FunctionWrongSignature | ContractNotFound | UserError
  | OutOfGas | AccountCollision | OutOfFunds | CallStackOverFlow | ContractInvalid
  | ExecutionFailed | UpgradeFailed

datatype CallType =
    DirectCall | AsynchronousCall | AsynchronousCallBack | ESDTTransferAndExecute

datatype BreakpointValue =
    BreakpointNone | BreakpointExecutionFailed | BreakpointAsyncCall
  | BreakpointSignalError | BreakpointOutOfGas

record ESDTTransfer =
  ESDTTokenName :: bytes
  ESDTTokenNonce :: "64 word"
  ESDTValue :: int
  ESDTTokenType :: "32 word"

record VMInput =
  CallerAddr :: bytes
  Arguments :: "bytes list"
  CallValue :: int
  CallType :: CallType
  GasPrice :: "64 word"
  GasProvided :: "64 word"
  GasLocked :: "64 word"
  OriginalTxHash :: bytes
  CurrentTxHash :: bytes
  PrevTxHash :: bytes
  ESDTTransfers :: "ESDTTransfer list"
  ReturnCallAfterError :: bool
  AsyncArguments :: "(bytes \<times> bytes) option"

record ContractCallInput = VMInput +
  RecipientAddr :: bytes
  Function :: string
  AllowInitFunction :: bool

record ContractCreateInput = VMInput +
  ContractCode :: bytes
  ContractCodeMetadata :: bytes

text \<open>\<^verbatim>\<open>arwen.CodeDeployInput\<close>; the fields carry a prefix because two of them
  share their names with fields of \<open>ContractCreateInput\<close>.\<close>

record CodeDeployInput =
  cdi_ContractCode :: bytes
  cdi_ContractCodeMetadata :: bytes
  cdi_ContractAddress :: bytes
  cdi_CodeDeployerAddress :: bytes

record OutputTransfer =
  ot_Value :: int
  ot_GasLimit :: "64 word"
  ot_GasLocked :: "64 word"
  ot_AsyncData :: bytes
  ot_Data :: bytes
  ot_CallType :: CallType
  ot_SenderAddress :: bytes

record OutputAccount =
  Address :: bytes
  Nonce :: "64 word"
  BalanceDelta :: int
  StorageUpdates :: "(bytes \<times> bytes) list"
  Code :: bytes
  CodeMetadata :: bytes
  CodeDeployerAddress :: bytes
  OutputTransfers :: "OutputTransfer list"
  GasUsed :: "64 word"

record LogEntry =
  log_Identifier :: bytes
  log_Address :: bytes
  log_Topics :: "bytes list"
  log_Data :: bytes

record VMOutput =
  ReturnData :: "bytes list"
  ReturnCode :: ReturnCode
  ReturnMessage :: string
  GasRemaining :: "64 word"
  GasRefund :: int
  OutputAccounts :: "(bytes \<times> OutputAccount) list"
  DeletedAccounts :: "bytes list"
  TouchedAccounts :: "bytes list"
  Logs :: "LogEntry list"

text \<open>The status that a write to the storage reports (section 4.5).\<close>

datatype StorageStatus = StorageUnchanged | StorageAdded | StorageModified | StorageDeleted

datatype AsyncCallStatus = AsyncCallPending | AsyncCallResolved | AsyncCallRejected

record AsyncCall =
  ac_Status :: AsyncCallStatus
  ac_Destination :: bytes
  ac_Data :: bytes
  ac_ValueBytes :: bytes
  ac_GasLimit :: "64 word"
  ac_SuccessCallback :: string
  ac_ErrorCallback :: string
  ac_GasLocked :: "64 word"
  ac_CallbackClosure :: "bytes option"

text \<open>What the blockchain hook returns for a user account (the two getters that
  \<^verbatim>\<open>checkUpgradePermission\<close> calls).\<close>

record UserAccount =
  GetCodeMetadata :: bytes
  GetOwnerAddress :: bytes

subsection \<open>The contexts and their state stacks\<close>

text \<open>
  Each context owns an active state and a stack of saved states. The context
  implementations are not in the source; the push/pop discipline below follows the test of
  the big-integer context (\<^verbatim>\<open>TestBigIntContext_InitPushPopState\<close>: \<open>PushState\<close>
  copies the active state onto the stack, \<open>PopDiscard\<close> drops the top and keeps the active
  state, \<open>PopSetActiveState\<close> makes the top the active state, and both pops do nothing on an
  empty stack) and sections 4.3 and 4.4 of the specification for the merge.
\<close>

record 'a ctx =
  active :: 'a
  stateStack :: "'a list"

definition PushState :: "'a ctx \<Rightarrow> 'a ctx" where
  "PushState c = c\<lparr>stateStack := active c # stateStack c\<rparr>"

definition PopSetActiveState :: "'a ctx \<Rightarrow> 'a ctx" where
  "PopSetActiveState c =
     (case stateStack c of
        [] \<Rightarrow> c
      | prev # rest \<Rightarrow> c\<lparr>active := prev, stateStack := rest\<rparr>)"

definition PopDiscard :: "'a ctx \<Rightarrow> 'a ctx" where
  "PopDiscard c =
     (case stateStack c of
        [] \<Rightarrow> c
      | prev # rest \<Rightarrow> c\<lparr>stateStack := rest\<rparr>)"

definition PopMergeActiveState :: "('a \<Rightarrow> 'a \<Rightarrow> 'a) \<Rightarrow> 'a ctx \<Rightarrow> 'a ctx" where
  "PopMergeActiveState merge c =
     (case stateStack c of
        [] \<Rightarrow> c
      | prev # rest \<Rightarrow> c\<lparr>active := merge prev (active c), stateStack := rest\<rparr>)"

definition ClearStateStack :: "'a ctx \<Rightarrow> 'a ctx" where
  "ClearStateStack c = c\<lparr>stateStack := []\<rparr>"

record metering_state =
  gasProvided :: "64 word"
  gasSpent :: "64 word"
  gasTracedName :: string
  gasTrace :: "(string \<times> 64 word) list"

record runtime_state =
  vmInput :: ContractCallInput
  codeAddress :: bytes
  callFunction :: string
  readOnly :: bool
  verifyCode :: bool

text \<open>The fields of the async context that the modelled functions read
  (\<^verbatim>\<open>SerializableAsyncContext\<close> in \<^verbatim>\<open>async.proto\<close> lists them).\<close>

record async_state =
  as_address :: bytes
  as_callID :: bytes
  as_callerAddr :: bytes
  as_callerCallID :: bytes
  as_gasAccumulated :: "64 word"
  as_totalCallsCounter :: "64 word"

record host =
  managedTypesContext :: "bytes list ctx"
  blockchainContext :: "nat ctx"
  meteringContext :: "metering_state ctx"
  outputContext :: "VMOutput ctx"
  runtimeContext :: "runtime_state ctx"
  asyncContext :: "async_state ctx"
  storageContext :: "bytes ctx"
  memory :: bytes
  breakpointValue :: BreakpointValue
  errors :: "(error \<times> string) list"

subsection \<open>Collaborators outside the engine\<close>

record ElrondAPICost =
  cost_GetBlockHash :: "64 word"
  cost_CreateAsyncCall :: "64 word"
  cost_SetAsyncCallback :: "64 word"
  cost_Int64StorageStore :: "64 word"
  cost_Log :: "64 word"
  cost_ExecuteReadOnly :: "64 word"

record BaseOperationCost =
  cost_PersistPerByte :: "64 word"
  cost_DataCopyPerByte :: "64 word"
  cost_GetCode :: "64 word"

record ParsedESDTTransfers =
  RcvAddr :: bytes
  parsed_ESDTTransfers :: "ESDTTransfer list"

text \<open>
  Everything the modelled functions call that is neither in the source nor described by
  the specification is a parameter: the blockchain hook, the executor with the guest code
  it runs, the parsers, the gas schedule, the feature flags, the constants of package
  \<^verbatim>\<open>arwen\<close>, and the methods of the contexts whose effect the specification leaves open.
  A method that changes the host is a function from host to host.
\<close>

record env =
  \<comment> \<open>blockchain hook and blockchain context\<close>
  GetUserAccount :: "bytes \<Rightarrow> error + UserAccount option"
  NewAddress :: "bytes \<Rightarrow> error + bytes"
  AccountExists :: "bytes \<Rightarrow> bool"
  GetShardOfAddress :: "bytes \<Rightarrow> 32 word"
  IsSmartContract :: "bytes \<Rightarrow> bool"
  GetBalance :: "bytes \<Rightarrow> int"
  BlockHash :: "64 word \<Rightarrow> bytes"
  ProcessBuiltInFunction :: "ContractCallInput \<Rightarrow> (VMOutput option \<times> error) + VMOutput"
  IncreaseNonce :: "bytes \<Rightarrow> nat \<Rightarrow> nat"
  \<comment> \<open>configuration of the host\<close>
  builtInFuncContainer :: "string \<Rightarrow> bool option"
  ParseESDTTransfers :: "bytes \<Rightarrow> bytes \<Rightarrow> string \<Rightarrow> bytes list \<Rightarrow> error + ParsedESDTTransfers"
  ParseData :: "string \<Rightarrow> error + (string \<times> bytes list)"
  IsRefactorContextFlagEnabled :: bool
  IsRemoveNonUpdatedStorageFlagEnabled :: bool
  ElrondAPICost :: ElrondAPICost
  BaseOperationCost :: BaseOperationCost
  \<comment> \<open>constants and helpers of package \<^verbatim>\<open>arwen\<close> and \<^verbatim>\<open>math\<close>\<close>
  AddressLen :: "32 word"
  BalanceLen :: "32 word"
  HashLen :: "32 word"
  TimeLockKeyPrefix :: bytes
  InitFunctionNameEth :: string
  CustomStorageKey :: "bytes \<Rightarrow> bytes \<Rightarrow> bytes"
  errorText :: "error \<Rightarrow> string"
  AddUint64 :: "64 word \<Rightarrow> 64 word \<Rightarrow> 64 word"
  SubUint64 :: "64 word \<Rightarrow> 64 word \<Rightarrow> 64 word"
  MulUint64 :: "64 word \<Rightarrow> 64 word \<Rightarrow> 64 word"
  \<comment> \<open>executor: linear memory, instances, guest code\<close>
  MemLoad :: "bytes \<Rightarrow> 32 word \<Rightarrow> 32 word \<Rightarrow> error + bytes"
  MemStore :: "bytes \<Rightarrow> 32 word \<Rightarrow> bytes \<Rightarrow> error + bytes"
  MemLoadMultiple :: "bytes \<Rightarrow> 32 word \<Rightarrow> 32 word list \<Rightarrow> error + bytes list"
  GetSCCode :: "host \<Rightarrow> error + bytes"
  StartWasmerInstance :: "bytes \<Rightarrow> 64 word \<Rightarrow> bool \<Rightarrow> host \<Rightarrow> error option \<times> host"
  CleanInstance :: "host \<Rightarrow> host"
  HasFunction :: "string \<Rightarrow> host \<Rightarrow> bool"
  FunctionNameChecked :: "host \<Rightarrow> error + string"
  CallSCFunction :: "string \<Rightarrow> host \<Rightarrow> error option \<times> host"
  handleBreakpointIfAny :: "error \<Rightarrow> host \<Rightarrow> error option \<times> host"
  GetPointsUsed :: "host \<Rightarrow> 64 word"
  ExtractCodeUpgradeFromArgs :: "host \<Rightarrow> error + (bytes \<times> bytes)"
  \<comment> \<open>methods of the contexts that the specification leaves open\<close>
  CensorVMOutput :: "VMOutput \<Rightarrow> VMOutput"
  AddTxValueToAccount :: "bytes \<Rightarrow> int \<Rightarrow> VMOutput \<Rightarrow> VMOutput"
  RemoveNonUpdatedStorage :: "VMOutput \<Rightarrow> VMOutput"
  mergeVMOutputs :: "VMOutput \<Rightarrow> VMOutput \<Rightarrow> VMOutput"
  mergeMetering :: "metering_state \<Rightarrow> metering_state \<Rightarrow> metering_state"
  resolveReturnCodeFromError :: "error \<Rightarrow> ReturnCode"
  initialGasCostForExecution :: "bytes \<Rightarrow> 64 word"
  initialGasCostForDirectDeployment :: "CodeDeployInput \<Rightarrow> 64 word"
  initialGasCostForIndirectDeployment :: "CodeDeployInput \<Rightarrow> 64 word"
  GetGasForExecution :: "host \<Rightarrow> 64 word"
  TrackGasUsedByBuiltinFunction ::
    "ContractCallInput \<Rightarrow> VMOutput \<Rightarrow> ContractCallInput option \<Rightarrow> host \<Rightarrow> host"
  GetVmProtectedPrefix :: "bytes \<Rightarrow> bytes"
  SetProtectedStorage :: "bytes \<Rightarrow> bytes \<Rightarrow> host \<Rightarrow> (32 word \<times> error option) \<times> host"
  storageWrite :: "bytes \<Rightarrow> bytes \<Rightarrow> host \<Rightarrow> (StorageStatus \<times> error option) \<times> host"
  asyncInitStateFromInput :: "ContractCallInput \<Rightarrow> host \<Rightarrow> error option \<times> host"
  asyncExecute :: "host \<Rightarrow> error option \<times> host"
  asyncIsComplete :: "host \<Rightarrow> bool"
  asyncSetResults :: "VMOutput \<Rightarrow> host \<Rightarrow> host"
  asyncSave :: "host \<Rightarrow> error option \<times> host"
  SetAsyncArgumentsForCall :: "ContractCallInput \<Rightarrow> host \<Rightarrow> ContractCallInput"
  CompleteChildConditional :: "bool \<Rightarrow> host \<Rightarrow> error option \<times> host"
  AddAsyncArgumentsToOutputTransfers ::
    "bytes \<Rightarrow> (bytes \<times> bytes) option \<Rightarrow> CallType \<Rightarrow> VMOutput \<Rightarrow> error + VMOutput"
  RegisterAsyncCall :: "string \<Rightarrow> AsyncCall \<Rightarrow> host \<Rightarrow> error option \<times> host"
  generateNewCallID :: "async_state \<Rightarrow> bytes \<times> async_state"
  ReturnCodeToBytes :: "ReturnCode \<Rightarrow> bytes"

section \<open>Context operations\<close>

subsection \<open>Runtime context\<close>

definition ReadOnly :: "host \<Rightarrow> bool" where
  "ReadOnly s = readOnly (active (runtimeContext s))"

definition SetReadOnly :: "bool \<Rightarrow> host \<Rightarrow> host" where
  "SetReadOnly b s = s\<lparr>runtimeContext := active_update (\<lambda>r. r\<lparr>readOnly := b\<rparr>) (runtimeContext s)\<rparr>"

definition GetVMInput :: "host \<Rightarrow> ContractCallInput" where
  "GetVMInput s = vmInput (active (runtimeContext s))"

definition GetContextAddress :: "host \<Rightarrow> bytes" where
  "GetContextAddress s = RecipientAddr (GetVMInput s)"

definition FunctionName :: "host \<Rightarrow> string" where
  "FunctionName s = callFunction (active (runtimeContext s))"

definition SetCodeAddress :: "bytes \<Rightarrow> host \<Rightarrow> host" where
  "SetCodeAddress a s =
     s\<lparr>runtimeContext := active_update (\<lambda>r. r\<lparr>codeAddress := a\<rparr>) (runtimeContext s)\<rparr>"

definition SetVMInput :: "ContractCallInput \<Rightarrow> host \<Rightarrow> host" where
  "SetVMInput i s =
     s\<lparr>runtimeContext := active_update (\<lambda>r. r\<lparr>vmInput := i\<rparr>) (runtimeContext s)\<rparr>"

definition MustVerifyNextContractCode :: "host \<Rightarrow> host" where
  "MustVerifyNextContractCode s =
     s\<lparr>runtimeContext := active_update (\<lambda>r. r\<lparr>verifyCode := True\<rparr>) (runtimeContext s)\<rparr>"

text \<open>
  Modelled from the spec: \<^verbatim>\<open>runtimeContext.InitStateFromContractCallInput\<close> is not in the
  source. Section 4.2: the runtime context holds the bound call input; the call binds the
  input, the code address and the function to call. The read-only flag is left as it is:
  section 4.8 has a flag set by \<^verbatim>\<open>executeReadOnly\<close> guard what the called contract attempts.
\<close>

definition runtime_InitStateFromContractCallInput :: "ContractCallInput \<Rightarrow> host \<Rightarrow> host" where
  "runtime_InitStateFromContractCallInput i s =
     s\<lparr>runtimeContext :=
         active_update (\<lambda>r. r\<lparr>vmInput := i, codeAddress := RecipientAddr i,
                                   callFunction := Function i\<rparr>) (runtimeContext s)\<rparr>"

text \<open>
  The text of an error (Go's \<^verbatim>\<open>err.Error()\<close>). The error values are declared in a file
  that is not in the source; \<^verbatim>\<open>bad_test.go\<close> asserts the text of \<open>ErrNegativeLength\<close>, an
  error of a collaborator carries its own text, the other texts are a parameter.
\<close>

definition Error :: "env \<Rightarrow> error \<Rightarrow> string" where
  "Error E e =
     (case e of
        ErrNegativeLength \<Rightarrow> ''negative length''
      | ErrExternal msg \<Rightarrow> msg
      | _ \<Rightarrow> errorText E e)"

text \<open>\<^verbatim>\<open>runtime.AddError(err, otherInfo)\<close>: the error accumulator; a nil error adds
  nothing.\<close>

definition AddError :: "error option \<Rightarrow> string \<Rightarrow> host \<Rightarrow> host" where
  "AddError err info s =
     (case err of None \<Rightarrow> s | Some e \<Rightarrow> s\<lparr>errors := errors s @ [(e, info)]\<rparr>)"

text \<open>
  Modelled from the spec: \<^verbatim>\<open>runtimeContext.FailExecution\<close> is not in the source.
  Section 4.2: it records the error and raises the \<open>ExecutionFailed\<close> breakpoint; section 8,
  scenario 3 (\<^verbatim>\<open>TestBadContract_NoPanic_BadWriteLog1\<close>): the outcome is the return code
  \<open>ExecutionFailed\<close> with the text of the error as message.
\<close>

definition FailExecution :: "env \<Rightarrow> error \<Rightarrow> host \<Rightarrow> host" where
  "FailExecution E e s =
     (AddError (Some e) [] s)
       \<lparr>outputContext :=
          active_update (\<lambda>out. out\<lparr>ReturnCode := ExecutionFailed, ReturnMessage := Error E e\<rparr>)
            (outputContext s),
        breakpointValue := BreakpointExecutionFailed\<rparr>"

text \<open>
  Modelled from the spec: \<^verbatim>\<open>runtime.ElrondAPIErrorShouldFailExecution()\<close> is not in the
  source. Section 4.8, step (5) of the contract of every hook: on any recoverable failure the
  policy flag "API error should fail execution" is set; section 8, scenario 3 and
  \<^verbatim>\<open>TestBadContract_NoPanic_BadWriteLog1\<close> have the failure of a hook fail the execution.
\<close>

definition ElrondAPIErrorShouldFailExecution :: "env \<Rightarrow> bool" where
  "ElrondAPIErrorShouldFailExecution E = True"

text \<open>
  Modelled from the spec: \<^verbatim>\<open>WithFault\<close> and \<^verbatim>\<open>WithFaultAndHost\<close> are not in the source.
  Every hook calls it with the error of the step it has just made and the policy flag
  "API error should fail execution" (section 4.8); the hooks use its result as "there was
  an error". With the flag set the error fails the execution.
\<close>

definition WithFault :: "env \<Rightarrow> error option \<Rightarrow> bool \<Rightarrow> host \<Rightarrow> bool \<times> host" where
  "WithFault E err failExecution s =
     (case err of
        None \<Rightarrow> (False, s)
      | Some e \<Rightarrow> (True, if failExecution then FailExecution E e s else s))"

definition runtime_MemLoad :: "env \<Rightarrow> 32 word \<Rightarrow> 32 word \<Rightarrow> host \<Rightarrow> error + bytes" where
  "runtime_MemLoad E offset len s = MemLoad E (memory s) offset len"

definition runtime_MemStore :: "env \<Rightarrow> 32 word \<Rightarrow> bytes \<Rightarrow> host \<Rightarrow> error option \<times> host" where
  "runtime_MemStore E offset data s =
     (case MemStore E (memory s) offset data of
        Inl e \<Rightarrow> (Some e, s)
      | Inr m \<Rightarrow> (None, s\<lparr>memory := m\<rparr>))"

subsection \<open>Metering context\<close>

text \<open>
  Modelled from the spec: the metering context is not in the source. Section 4.3:
  \<open>UseGas\<close> is an unconditional charge, \<open>GasLeft\<close> what remains of the gas provided,
  \<open>BoundGasLimit n = min n GasLeft\<close>, \<open>RestoreGas\<close> returns unused gas to the current frame,
  the initial deductions charge a one-time cost or fail with \<open>NotEnoughGas\<close>, and the gas
  trace keeps the individual charges per API name.
\<close>

definition UseGas :: "env \<Rightarrow> 64 word \<Rightarrow> host \<Rightarrow> host" where
  "UseGas E gas s =
     s\<lparr>meteringContext :=
         active_update (\<lambda>m. m\<lparr>gasSpent := AddUint64 E (gasSpent m) gas\<rparr>) (meteringContext s)\<rparr>"

definition GasLeft :: "env \<Rightarrow> host \<Rightarrow> 64 word" where
  "GasLeft E s =
     SubUint64 E (gasProvided (active (meteringContext s))) (gasSpent (active (meteringContext s)))"

definition StartGasTracing :: "string \<Rightarrow> host \<Rightarrow> host" where
  "StartGasTracing name s =
     s\<lparr>meteringContext := active_update (\<lambda>m. m\<lparr>gasTracedName := name\<rparr>) (meteringContext s)\<rparr>"

definition addTracedGas :: "string \<Rightarrow> 64 word \<Rightarrow> host \<Rightarrow> host" where
  "addTracedGas name gas s =
     s\<lparr>meteringContext :=
         active_update (\<lambda>m. m\<lparr>gasTrace := gasTrace m @ [(name, gas)]\<rparr>) (meteringContext s)\<rparr>"

definition UseGasAndAddTracedGas :: "env \<Rightarrow> string \<Rightarrow> 64 word \<Rightarrow> host \<Rightarrow> host" where
  "UseGasAndAddTracedGas E name gas s = addTracedGas name gas (UseGas E gas s)"

definition UseAndTraceGas :: "env \<Rightarrow> 64 word \<Rightarrow> host \<Rightarrow> host" where
  "UseAndTraceGas E gas s =
     addTracedGas (gasTracedName (active (meteringContext s))) gas (UseGas E gas s)"

definition BoundGasLimit :: "env \<Rightarrow> 64 word \<Rightarrow> host \<Rightarrow> 64 word" where
  "BoundGasLimit E limit s = (if GasLeft E s < limit then GasLeft E s else limit)"

definition RestoreGas :: "env \<Rightarrow> 64 word \<Rightarrow> host \<Rightarrow> host" where
  "RestoreGas E gas s =
     s\<lparr>meteringContext :=
         active_update (\<lambda>m. m\<lparr>gasSpent := SubUint64 E (gasSpent m) gas\<rparr>) (meteringContext s)\<rparr>"

definition metering_InitStateFromContractCallInput :: "'a VMInput_scheme \<Rightarrow> host \<Rightarrow> host" where
  "metering_InitStateFromContractCallInput i s =
     s\<lparr>meteringContext :=
         active_update (\<lambda>m. m\<lparr>gasProvided := GasProvided i, gasSpent := 0\<rparr>) (meteringContext s)\<rparr>"

definition deductInitialGas :: "env \<Rightarrow> 64 word \<Rightarrow> host \<Rightarrow> error option \<times> host" where
  "deductInitialGas E cost s =
     (if GasLeft E s < cost then (Some ErrNotEnoughGas, s) else (None, UseGas E cost s))"

definition DeductInitialGasForExecution :: "env \<Rightarrow> bytes \<Rightarrow> host \<Rightarrow> error option \<times> host" where
  "DeductInitialGasForExecution E contract s =
     deductInitialGas E (initialGasCostForExecution E contract) s"

definition DeductInitialGasForDirectDeployment ::
  "env \<Rightarrow> CodeDeployInput \<Rightarrow> host \<Rightarrow> error option \<times> host" where
  "DeductInitialGasForDirectDeployment E input s =
     deductInitialGas E (initialGasCostForDirectDeployment E input) s"

definition DeductInitialGasForIndirectDeployment ::
  "env \<Rightarrow> CodeDeployInput \<Rightarrow> host \<Rightarrow> error option \<times> host" where
  "DeductInitialGasForIndirectDeployment E input s =
     deductInitialGas E (initialGasCostForIndirectDeployment E input) s"

subsection \<open>Output context\<close>

text \<open>The output accounts are a Go map from address to account; here an association list
  with one entry per address, in the order in which the accounts were first touched.\<close>

text \<open>
  Modelled from the spec: the output context is not in the source. Section 4.4: it
  assembles the \<open>VMOutput\<close> incrementally; \<open>TransferValueOnly\<close> debits the sender and
  credits the destination and fails if the sender cannot afford the value (the payable
  check behind \<open>checkPayable\<close> is not described; the callers modelled here pass
  \<open>false\<close>); \<open>Transfer\<close> does the same and records the outgoing transfer, and by section
  4.8 it raises \<open>InvalidCallOnReadOnlyMode\<close> while the read-only flag is set; \<open>WriteLog\<close>
  appends a log entry (its identifier is not among the arguments and is left empty);
  \<open>DeployCode\<close> stages the code of an account; \<open>CreateVMOutputInCaseOfError\<close> returns an
  output with the return code mapped from the error and its message, everything else
  discarded; the final output is assembled from the output and the metering contexts.
\<close>

definition emptyVMOutput :: VMOutput where
  "emptyVMOutput =
     \<lparr>ReturnData = [], ReturnCode = Ok, ReturnMessage = [], GasRemaining = 0, GasRefund = 0,
      OutputAccounts = [], DeletedAccounts = [], TouchedAccounts = [], Logs = []\<rparr>"

definition newOutputAccount :: "bytes \<Rightarrow> OutputAccount" where
  "newOutputAccount a =
     \<lparr>Address = a, Nonce = 0, BalanceDelta = 0, StorageUpdates = [], Code = [],
      CodeMetadata = [], CodeDeployerAddress = [], OutputTransfers = [], GasUsed = 0\<rparr>"

definition GetOutputAccount :: "VMOutput \<Rightarrow> bytes \<Rightarrow> OutputAccount" where
  "GetOutputAccount out a =
     (case map_of (OutputAccounts out) a of None \<Rightarrow> newOutputAccount a | Some acc \<Rightarrow> acc)"

definition putOutputAccount :: "OutputAccount \<Rightarrow> VMOutput \<Rightarrow> VMOutput" where
  "putOutputAccount acc out =
     out\<lparr>OutputAccounts := AList.update (Address acc) acc (OutputAccounts out)\<rparr>"

definition output_ReturnCode :: "host \<Rightarrow> ReturnCode" where
  "output_ReturnCode s = ReturnCode (active (outputContext s))"

definition SetReturnCode :: "ReturnCode \<Rightarrow> host \<Rightarrow> host" where
  "SetReturnCode rc s =
     s\<lparr>outputContext := active_update (\<lambda>out. out\<lparr>ReturnCode := rc\<rparr>) (outputContext s)\<rparr>"

definition GetVMOutput :: "env \<Rightarrow> host \<Rightarrow> VMOutput" where
  "GetVMOutput E s = (active (outputContext s))\<lparr>GasRemaining := GasLeft E s\<rparr>"

definition CreateVMOutputInCaseOfError :: "env \<Rightarrow> error \<Rightarrow> VMOutput" where
  "CreateVMOutputInCaseOfError E err =
     emptyVMOutput\<lparr>ReturnCode := resolveReturnCodeFromError E err, ReturnMessage := Error E err\<rparr>"

definition transferValue :: "bytes \<Rightarrow> bytes \<Rightarrow> int \<Rightarrow> VMOutput \<Rightarrow> VMOutput" where
  "transferValue dest sender val out =
     (let senderAcc = GetOutputAccount out sender;
          out1 = putOutputAccount (senderAcc\<lparr>BalanceDelta := BalanceDelta senderAcc - val\<rparr>) out;
          destAcc = GetOutputAccount out1 dest
      in putOutputAccount (destAcc\<lparr>BalanceDelta := BalanceDelta destAcc + val\<rparr>) out1)"

definition canAfford :: "env \<Rightarrow> bytes \<Rightarrow> int \<Rightarrow> VMOutput \<Rightarrow> bool" where
  "canAfford E sender val out \<longleftrightarrow>
     val \<le> GetBalance E sender + BalanceDelta (GetOutputAccount out sender)"

definition TransferValueOnly ::
  "env \<Rightarrow> bytes \<Rightarrow> bytes \<Rightarrow> int \<Rightarrow> bool \<Rightarrow> host \<Rightarrow> error option \<times> host" where
  "TransferValueOnly E dest sender val checkPayable s =
     (if \<not> canAfford E sender val (active (outputContext s))
      then (Some ErrTransferInsufficientFunds, s)
      else (None, s\<lparr>outputContext := active_update (transferValue dest sender val) (outputContext s)\<rparr>))"

definition appendOutputTransfer :: "bytes \<Rightarrow> OutputTransfer \<Rightarrow> VMOutput \<Rightarrow> VMOutput" where
  "appendOutputTransfer dest t out =
     (let destAcc = GetOutputAccount out dest
      in putOutputAccount (destAcc\<lparr>OutputTransfers := OutputTransfers destAcc @ [t]\<rparr>) out)"

definition Transfer ::
  "env \<Rightarrow> bytes \<Rightarrow> bytes \<Rightarrow> 64 word \<Rightarrow> 64 word \<Rightarrow> int \<Rightarrow> bytes \<Rightarrow> bytes \<Rightarrow> CallType
     \<Rightarrow> host \<Rightarrow> error option \<times> host" where
  "Transfer E dest sender gasLimit gasLocked val asyncData data callType s =
     (if ReadOnly s then (Some ErrInvalidCallOnReadOnlyMode, s)
      else if \<not> canAfford E sender val (active (outputContext s))
      then (Some ErrTransferInsufficientFunds, s)
      else (None,
            s\<lparr>outputContext :=
                active_update
                  (\<lambda>out. appendOutputTransfer dest
                            \<lparr>ot_Value = val, ot_GasLimit = gasLimit, ot_GasLocked = gasLocked,
                             ot_AsyncData = asyncData, ot_Data = data, ot_CallType = callType,
                             ot_SenderAddress = sender\<rparr>
                            (transferValue dest sender val out))
                  (outputContext s)\<rparr>))"

definition output_WriteLog :: "bytes \<Rightarrow> bytes list \<Rightarrow> bytes \<Rightarrow> host \<Rightarrow> host" where
  "output_WriteLog addr topics data s =
     s\<lparr>outputContext :=
         active_update
           (\<lambda>out. out\<lparr>Logs := Logs out @
              [\<lparr>log_Identifier = [], log_Address = addr, log_Topics = topics, log_Data = data\<rparr>]\<rparr>)
           (outputContext s)\<rparr>"

definition DeployCode :: "CodeDeployInput \<Rightarrow> host \<Rightarrow> host" where
  "DeployCode input s =
     s\<lparr>outputContext :=
         active_update
           (\<lambda>out. putOutputAccount
              ((GetOutputAccount out (cdi_ContractAddress input))
                 \<lparr>Code := cdi_ContractCode input,
                  CodeMetadata := cdi_ContractCodeMetadata input,
                  CodeDeployerAddress := cdi_CodeDeployerAddress input\<rparr>) out)
           (outputContext s)\<rparr>"

definition DeleteOutputAccount :: "bytes \<Rightarrow> host \<Rightarrow> host" where
  "DeleteOutputAccount a s =
     s\<lparr>outputContext :=
         active_update (\<lambda>out. out\<lparr>OutputAccounts := AList.delete a (OutputAccounts out)\<rparr>)
           (outputContext s)\<rparr>"

definition AddToActiveState :: "env \<Rightarrow> VMOutput \<Rightarrow> host \<Rightarrow> host" where
  "AddToActiveState E vmOutput s =
     s\<lparr>outputContext := active_update (\<lambda>out. mergeVMOutputs E out vmOutput) (outputContext s)\<rparr>"

subsection \<open>Storage context\<close>

text \<open>
  Modelled from the spec: the storage context is not in the source. Section 4.5:
  \<open>SetStorage(key, data)\<close> writes under the account of the current execution context and
  reports \<open>Unchanged\<close>, \<open>Added\<close>, \<open>Modified\<close> or \<open>Deleted\<close>. Section 4.8: a storage mutation
  attempted while the read-only flag is set raises \<open>InvalidCallOnReadOnlyMode\<close>. What the
  write does outside read-only mode (the status, the gas, the protected keys, the storage
  update in the output account) is the parameter \<open>storageWrite\<close>.
\<close>

definition SetStorage ::
  "env \<Rightarrow> bytes \<Rightarrow> bytes \<Rightarrow> host \<Rightarrow> (StorageStatus \<times> error option) \<times> host" where
  "SetStorage E key data s =
     (if ReadOnly s then ((StorageUnchanged, Some ErrInvalidCallOnReadOnlyMode), s)
      else storageWrite E key data s)"

section \<open>VM-API hooks (\<^verbatim>\<open>elrondei.go\<close>)\<close>

definition blockHashName :: string where "blockHashName = ''blockHash''"
definition createAsyncCallName :: string where "createAsyncCallName = ''createAsyncCall''"
definition setStorageLockName :: string where "setStorageLockName = ''setStorageLock''"
definition writeLogName :: string where "writeLogName = ''writeLog''"
definition executeReadOnlyName :: string where "executeReadOnlyName = ''executeReadOnly''"

text \<open>Go's \<^verbatim>\<open>string(b)\<close> for a byte slice.\<close>

definition stringOfBytes :: "bytes \<Rightarrow> string" where
  "stringOfBytes b = map (\<lambda>x. char_of (unat x)) b"

text \<open>
  \<^verbatim>\<open>big.Int.Bytes()\<close> of the Go library: the absolute value as a big-endian byte slice
  without leading zeros; zero is the empty slice.
\<close>

fun natBytes :: "nat \<Rightarrow> bytes" where
  "natBytes n = (if n = 0 then [] else natBytes (n div 256) @ [of_nat (n mod 256)])"

declare natBytes.simps [simp del]

definition bigIntBytes :: "int \<Rightarrow> bytes" where
  "bigIntBytes x = natBytes (nat \<bar>x\<bar>)"

subsection \<open>\<^verbatim>\<open>GetBlockHash\<close>\<close>

definition GetBlockHash :: "env \<Rightarrow> 64 word \<Rightarrow> 32 word \<Rightarrow> host \<Rightarrow> 32 word \<times> host" where
  "GetBlockHash E nonce resultOffset s =
     (let gasToUse = cost_GetBlockHash (ElrondAPICost E);
          s1 = UseGasAndAddTracedGas E blockHashName gasToUse s;
          hash = BlockHash E nonce;
          (err, s2) = runtime_MemStore E resultOffset hash s1;
          (fault, s3) = WithFault E err (ElrondAPIErrorShouldFailExecution E) s2
      in if fault then (1, s3) else (0, s3))"

subsection \<open>\<^verbatim>\<open>CreateAsyncCall\<close>\<close>

text \<open>\<^verbatim>\<open>AsyncCall.HasDefinedAnyCallback\<close> (package \<^verbatim>\<open>arwen\<close>, not in the source): one of
  the two callback names is set.\<close>

definition HasDefinedAnyCallback :: "AsyncCall \<Rightarrow> bool" where
  "HasDefinedAnyCallback c \<longleftrightarrow> ac_SuccessCallback c \<noteq> [] \<or> ac_ErrorCallback c \<noteq> []"

definition CreateAsyncCallWithTypedArgs ::
  "env \<Rightarrow> bytes \<Rightarrow> bytes \<Rightarrow> bytes \<Rightarrow> bytes \<Rightarrow> bytes \<Rightarrow> 64 word \<Rightarrow> 64 word \<Rightarrow> bytes option
     \<Rightarrow> host \<Rightarrow> 32 word \<times> host" where
  "CreateAsyncCallWithTypedArgs E calledSCAddress val data successFunc errorFunc gas
      extraGasForCallback callbackClosure s =
     (let s1 = StartGasTracing createAsyncCallName s;
          gasToUse = cost_CreateAsyncCall (ElrondAPICost E);
          s2 = UseAndTraceGas E gasToUse s1;
          asyncCall =
            \<lparr>ac_Status = AsyncCallPending, ac_Destination = calledSCAddress, ac_Data = data,
             ac_ValueBytes = val, ac_GasLimit = gas,
             ac_SuccessCallback = stringOfBytes successFunc,
             ac_ErrorCallback = stringOfBytes errorFunc,
             ac_GasLocked = extraGasForCallback, ac_CallbackClosure = callbackClosure\<rparr>;
          s3 = (if HasDefinedAnyCallback asyncCall
                then UseAndTraceGas E (cost_SetAsyncCallback (ElrondAPICost E)) s2 else s2);
          (err, s4) = RegisterAsyncCall E [] asyncCall s3;
          (fault, s5) = WithFault E err (ElrondAPIErrorShouldFailExecution E) s4
      in if fault then (1, s5) else (0, s5))"

text \<open>One \<^verbatim>\<open>MemLoad\<close> followed by the fault check of the hook: the bytes, or the host
  after \<open>WithFault\<close>.\<close>

definition loadOrFault :: "env \<Rightarrow> 32 word \<Rightarrow> 32 word \<Rightarrow> host \<Rightarrow> host + bytes" where
  "loadOrFault E offset len s =
     (case runtime_MemLoad E offset len s of
        Inl e \<Rightarrow> Inl (snd (WithFault E (Some e) (ElrondAPIErrorShouldFailExecution E) s))
      | Inr b \<Rightarrow> Inr b)"

definition CreateAsyncCallWithHost ::
  "env \<Rightarrow> 32 word \<Rightarrow> 32 word \<Rightarrow> 32 word \<Rightarrow> 32 word \<Rightarrow> 32 word \<Rightarrow> 32 word \<Rightarrow> 32 word
     \<Rightarrow> 32 word \<Rightarrow> 64 word \<Rightarrow> 64 word \<Rightarrow> host \<Rightarrow> 32 word \<times> host" where
  "CreateAsyncCallWithHost E destOffset valueOffset dataOffset dataLength successOffset
      successLength errorOffset errorLength gas extraGasForCallback s =
     (case loadOrFault E destOffset (AddressLen E) s of
        Inl s' \<Rightarrow> (1, s')
      | Inr calledSCAddress \<Rightarrow>
     (case loadOrFault E valueOffset (BalanceLen E) s of
        Inl s' \<Rightarrow> (1, s')
      | Inr val \<Rightarrow>
     (case loadOrFault E dataOffset dataLength s of
        Inl s' \<Rightarrow> (1, s')
      | Inr data \<Rightarrow>
     (case loadOrFault E successOffset successLength s of
        Inl s' \<Rightarrow> (1, s')
      | Inr successFunc \<Rightarrow>
     (case loadOrFault E errorOffset errorLength s of
        Inl s' \<Rightarrow> (1, s')
      | Inr errorFunc \<Rightarrow>
          CreateAsyncCallWithTypedArgs E calledSCAddress val data successFunc errorFunc gas
            extraGasForCallback None s)))))"

subsection \<open>Storage locks\<close>

definition SetStorageLockWithTypedArgs :: "env \<Rightarrow> bytes \<Rightarrow> 64 word \<Rightarrow> host \<Rightarrow> 32 word \<times> host" where
  "SetStorageLockWithTypedArgs E key lockTimestamp s =
     (let timeLockKeyPrefix = GetVmProtectedPrefix E (TimeLockKeyPrefix E);
          timeLockKey = CustomStorageKey E timeLockKeyPrefix key;
          bigTimestamp = sint lockTimestamp;
          ((storageStatus, err), s1) = SetProtectedStorage E timeLockKey (bigIntBytes bigTimestamp) s;
          (fault, s2) = WithFault E err (ElrondAPIErrorShouldFailExecution E) s1
      in if fault then (- 1, s2) else (storageStatus, s2))"

definition SetStorageLockWithHost ::
  "env \<Rightarrow> 32 word \<Rightarrow> 32 word \<Rightarrow> 64 word \<Rightarrow> host \<Rightarrow> 32 word \<times> host" where
  "SetStorageLockWithHost E keyOffset keyLength lockTimestamp s =
     (let gasToUse = cost_Int64StorageStore (ElrondAPICost E);
          s1 = UseGasAndAddTracedGas E setStorageLockName gasToUse s
      in case loadOrFault E keyOffset keyLength s1 of
           Inl s' \<Rightarrow> (- 1, s')
         | Inr key \<Rightarrow> SetStorageLockWithTypedArgs E key lockTimestamp s1)"

definition SetStorageLock :: "env \<Rightarrow> 32 word \<Rightarrow> 32 word \<Rightarrow> 64 word \<Rightarrow> host \<Rightarrow> 32 word \<times> host" where
  "SetStorageLock E keyOffset keyLength lockTimestamp s =
     SetStorageLockWithHost E keyOffset keyLength lockTimestamp s"

definition ClearStorageLock :: "env \<Rightarrow> 32 word \<Rightarrow> 32 word \<Rightarrow> host \<Rightarrow> 32 word \<times> host" where
  "ClearStorageLock E keyOffset keyLength s = SetStorageLock E keyOffset keyLength 0 s"

subsection \<open>\<^verbatim>\<open>WriteLog\<close>\<close>

text \<open>The loop over the topics: \<open>n\<close> iterations are left, \<open>i\<close> is the index; a failed
  load stops the hook after its fault check.\<close>

fun loadTopics ::
  "env \<Rightarrow> 32 word \<Rightarrow> 32 word \<Rightarrow> nat \<Rightarrow> bytes list \<Rightarrow> host \<Rightarrow> host + bytes list" where
  "loadTopics E topicPtr i 0 topics s = Inr topics"
| "loadTopics E topicPtr i (Suc n) topics s =
     (case loadOrFault E (topicPtr + i * HashLen E) (HashLen E) s of
        Inl s' \<Rightarrow> Inl s'
      | Inr t \<Rightarrow> loadTopics E topicPtr (i + 1) n (topics @ [t]) s)"

definition WriteLog :: "env \<Rightarrow> 32 word \<Rightarrow> 32 word \<Rightarrow> 32 word \<Rightarrow> 32 word \<Rightarrow> host \<Rightarrow> host" where
  "WriteLog E dataPointer dataLength topicPtr numTopics s =
     (let gasToUse = cost_Log (ElrondAPICost E);
          gas = MulUint64 E (cost_PersistPerByte (BaseOperationCost E))
                  (scast (numTopics * HashLen E + dataLength));
          gasToUse = AddUint64 E gasToUse gas;
          s1 = UseGasAndAddTracedGas E writeLogName gasToUse s
      in if sint numTopics < 0 \<or> sint dataLength < 0
         then snd (WithFault E (Some ErrNegativeLength) (ElrondAPIErrorShouldFailExecution E) s1)
         else (case loadOrFault E dataPointer dataLength s1 of
                 Inl s' \<Rightarrow> s'
               | Inr log \<Rightarrow>
                   (case loadTopics E topicPtr 0 (nat (sint numTopics)) [] s1 of
                      Inl s' \<Rightarrow> s'
                    | Inr topics \<Rightarrow> output_WriteLog (GetContextAddress s1) topics log s1)))"

section \<open>The host (\<^verbatim>\<open>arwen/host\<close>)\<close>

definition InitFunctionName :: string where "InitFunctionName = ''init''"
definition UpgradeFunctionName :: string where "UpgradeFunctionName = ''upgradeContract''"
definition DeleteFunctionName :: string where "DeleteFunctionName = ''deleteContract''"

text \<open>Go's \<^verbatim>\<open>hex.EncodeToString\<close>.\<close>

definition hexDigit :: "nat \<Rightarrow> char" where
  "hexDigit n = ''0123456789abcdef'' ! n"

definition hexEncode :: "bytes \<Rightarrow> string" where
  "hexEncode b = concat (map (\<lambda>x. [hexDigit (unat x div 16), hexDigit (unat x mod 16)]) b)"

text \<open>
  \<^verbatim>\<open>vmcommon.CodeMetadataFromBytes\<close> of the library \<^verbatim>\<open>elrond-vm-common\<close>: the metadata
  is two bytes (section 6 of the specification: byte 0 holds \<open>upgradeable\<close> and \<open>readable\<close>,
  byte 1 holds \<open>payable\<close> and \<open>payableBySC\<close>); any other length gives no flag at all.
\<close>

record CodeMetadataFlags =
  Payable :: bool
  PayableBySC :: bool
  Upgradeable :: bool
  Readable :: bool

definition CodeMetadataFromBytes :: "bytes \<Rightarrow> CodeMetadataFlags" where
  "CodeMetadataFromBytes b =
     (case b of
        [b0, b1] \<Rightarrow>
          \<lparr>Payable = (b1 AND 2 \<noteq> 0), PayableBySC = (b1 AND 4 \<noteq> 0),
           Upgradeable = (b0 AND 1 \<noteq> 0), Readable = (b0 AND 4 \<noteq> 0)\<rparr>
      | _ \<Rightarrow> \<lparr>Payable = False, PayableBySC = False, Upgradeable = False, Readable = False\<rparr>)"

definition IsBuiltinFunctionName :: "env \<Rightarrow> string \<Rightarrow> bool" where
  "IsBuiltinFunctionName E functionName =
     (case builtInFuncContainer E functionName of
        None \<Rightarrow> False
      | Some isActive \<Rightarrow> isActive)"

definition AreInSameShard :: "env \<Rightarrow> bytes \<Rightarrow> bytes \<Rightarrow> bool" where
  "AreInSameShard E leftAddress rightAddress \<longleftrightarrow>
     GetShardOfAddress E leftAddress = GetShardOfAddress E rightAddress"

text \<open>
  Modelled from the spec: the \<^verbatim>\<open>InitState\<close> methods of the contexts are not in the source.
  \<^verbatim>\<open>host.InitState\<close> (\<^verbatim>\<open>initContexts\<close> in \<^verbatim>\<open>arwen.go\<close>) clears the state stack of every
  context and resets its active state; the blockchain context keeps the state of the hook.
\<close>

definition emptyCallInput :: ContractCallInput where
  "emptyCallInput =
     \<lparr>CallerAddr = [], Arguments = [], CallValue = 0, CallType = DirectCall, GasPrice = 0,
      GasProvided = 0, GasLocked = 0, OriginalTxHash = [], CurrentTxHash = [], PrevTxHash = [],
      ESDTTransfers = [], ReturnCallAfterError = False, AsyncArguments = None,
      RecipientAddr = [], Function = [], AllowInitFunction = False\<rparr>"

definition managedTypes_InitState :: "host \<Rightarrow> host" where
  "managedTypes_InitState s =
     s\<lparr>managedTypesContext := (managedTypesContext s)\<lparr>active := []\<rparr>\<rparr>"

definition InitState :: "host \<Rightarrow> host" where
  "InitState s =
     s\<lparr>managedTypesContext := \<lparr>active = [], stateStack = []\<rparr>,
        outputContext := \<lparr>active = emptyVMOutput, stateStack = []\<rparr>,
        meteringContext :=
          \<lparr>active = \<lparr>gasProvided = 0, gasSpent = 0, gasTracedName = [], gasTrace = []\<rparr>,
           stateStack = []\<rparr>,
        runtimeContext :=
          \<lparr>active = \<lparr>vmInput = emptyCallInput, codeAddress = [], callFunction = [],
                     readOnly = False, verifyCode = False\<rparr>,
           stateStack = []\<rparr>,
        asyncContext :=
          \<lparr>active = \<lparr>as_address = [], as_callID = [], as_callerAddr = [], as_callerCallID = [],
                     as_gasAccumulated = 0, as_totalCallsCounter = 0\<rparr>,
           stateStack = []\<rparr>,
        storageContext := \<lparr>active = [], stateStack = []\<rparr>,
        blockchainContext := ClearStateStack (blockchainContext s),
        breakpointValue := BreakpointNone,
        errors := []\<rparr>"

definition storage_SetAddress :: "bytes \<Rightarrow> host \<Rightarrow> host" where
  "storage_SetAddress a s = s\<lparr>storageContext := (storageContext s)\<lparr>active := a\<rparr>\<rparr>"

subsection \<open>Upgrade permission, deployment, upgrade and delete\<close>

definition checkUpgradePermission :: "env \<Rightarrow> ContractCallInput \<Rightarrow> error option" where
  "checkUpgradePermission E input =
     (case GetUserAccount E (RecipientAddr input) of
        Inl err \<Rightarrow> Some err
      | Inr None \<Rightarrow> Some ErrNilContract
      | Inr (Some contract) \<Rightarrow>
          (let codeMetadata = CodeMetadataFromBytes (GetCodeMetadata contract);
               isUpgradeable = Upgradeable codeMetadata;
               callerAddress = CallerAddr input;
               ownerAddress = GetOwnerAddress contract;
               isCallerOwner = (callerAddress = ownerAddress)
           in if isUpgradeable \<and> isCallerOwner then None else Some ErrUpgradeNotAllowed))"

definition checkFinalGasAfterExit :: "env \<Rightarrow> host \<Rightarrow> error option" where
  "checkFinalGasAfterExit E s =
     (if GetGasForExecution E s < GetPointsUsed E s then Some ErrNotEnoughGas else None)"

text \<open>\<^verbatim>\<open>err = host.handleBreakpointIfAny(err)\<close> after a call of guest code that returned an
  error.\<close>

definition callAndHandleBreakpoint :: "env \<Rightarrow> string \<Rightarrow> host \<Rightarrow> error option \<times> host" where
  "callAndHandleBreakpoint E functionName s =
     (case CallSCFunction E functionName s of
        (None, s1) \<Rightarrow> (None, s1)
      | (Some err, s1) \<Rightarrow> handleBreakpointIfAny E err s1)"

definition callInitFunction :: "env \<Rightarrow> host \<Rightarrow> error option \<times> host" where
  "callInitFunction E s =
     (if \<not> HasFunction E InitFunctionName s then (None, s)
      else (case callAndHandleBreakpoint E InitFunctionName s of
              (None, s1) \<Rightarrow> (checkFinalGasAfterExit E s1, s1)
            | (Some err, s1) \<Rightarrow> (Some err, s1)))"

definition output_RemoveNonUpdatedStorage :: "env \<Rightarrow> host \<Rightarrow> host" where
  "output_RemoveNonUpdatedStorage E s =
     s\<lparr>outputContext := active_update (RemoveNonUpdatedStorage E) (outputContext s)\<rparr>"

definition performCodeDeployment ::
  "env \<Rightarrow> CodeDeployInput \<Rightarrow> host \<Rightarrow> (error + VMOutput) \<times> host" where
  "performCodeDeployment E input s =
     (case DeductInitialGasForDirectDeployment E input s of
        (Some err, s1) \<Rightarrow> (Inl err, SetReturnCode OutOfGas s1)
      | (None, s1) \<Rightarrow>
          (let s2 = MustVerifyNextContractCode s1
           in case StartWasmerInstance E (cdi_ContractCode input) (GetGasForExecution E s2) True s2 of
                (Some err, s3) \<Rightarrow> (Inl ErrContractInvalid, s3)
              | (None, s3) \<Rightarrow>
                  (case callInitFunction E s3 of
                     (Some err, s4) \<Rightarrow> (Inl err, s4)
                   | (None, s4) \<Rightarrow>
                       (let s5 = DeployCode input s4;
                            s6 = (if IsRemoveNonUpdatedStorageFlagEnabled E
                                  then output_RemoveNonUpdatedStorage E s5 else s5)
                        in (Inr (GetVMOutput E s6), s6)))))"

text \<open>The deferred function of the top-level operations: the instance is cleaned when the
  output reports \<open>ExecutionFailed\<close> (the output is never nil on a return path).\<close>

definition cleanInstanceIfFailed :: "env \<Rightarrow> VMOutput \<Rightarrow> host \<Rightarrow> VMOutput \<times> host" where
  "cleanInstanceIfFailed E vmOutput s =
     (vmOutput, if ReturnCode vmOutput = ExecutionFailed then CleanInstance E s else s)"

definition output_AddTxValueToAccount :: "env \<Rightarrow> bytes \<Rightarrow> int \<Rightarrow> host \<Rightarrow> host" where
  "output_AddTxValueToAccount E a val s =
     s\<lparr>outputContext := active_update (AddTxValueToAccount E a val) (outputContext s)\<rparr>"

definition doRunSmartContractUpgrade :: "env \<Rightarrow> ContractCallInput \<Rightarrow> host \<Rightarrow> VMOutput \<times> host" where
  "doRunSmartContractUpgrade E input s =
     (let s0 = InitState s
      in case checkUpgradePermission E input of
           Some err \<Rightarrow> cleanInstanceIfFailed E (CreateVMOutputInCaseOfError E err) s0
         | None \<Rightarrow>
             (let s1 = runtime_InitStateFromContractCallInput input s0;
                  s2 = metering_InitStateFromContractCallInput input s1;
                  s3 = output_AddTxValueToAccount E (RecipientAddr input) (CallValue input) s2;
                  s4 = storage_SetAddress (GetContextAddress s3) s3
              in case ExtractCodeUpgradeFromArgs E s4 of
                   Inl err \<Rightarrow>
                     cleanInstanceIfFailed E
                       (CreateVMOutputInCaseOfError E ErrInvalidUpgradeArguments) s4
                 | Inr (code, codeMetadata) \<Rightarrow>
                     (let codeDeployInput =
                            \<lparr>cdi_ContractCode = code, cdi_ContractCodeMetadata = codeMetadata,
                             cdi_ContractAddress = RecipientAddr input,
                             cdi_CodeDeployerAddress = CallerAddr input\<rparr>
                      in case performCodeDeployment E codeDeployInput s4 of
                           (Inl err, s5) \<Rightarrow>
                             cleanInstanceIfFailed E (CreateVMOutputInCaseOfError E err) s5
                         | (Inr vmOutput, s5) \<Rightarrow> cleanInstanceIfFailed E vmOutput s5)))"

definition doRunSmartContractDelete :: "env \<Rightarrow> ContractCallInput \<Rightarrow> host \<Rightarrow> VMOutput" where
  "doRunSmartContractDelete E input s =
     (case checkUpgradePermission E input of
        Some err \<Rightarrow> CreateVMOutputInCaseOfError E err
      | None \<Rightarrow>
          (let vmOutput = GetVMOutput E s
           in vmOutput\<lparr>DeletedAccounts := DeletedAccounts vmOutput @ [RecipientAddr input]\<rparr>))"

definition executeUpgrade :: "env \<Rightarrow> ContractCallInput \<Rightarrow> host \<Rightarrow> error option \<times> host" where
  "executeUpgrade E input s =
     (case checkUpgradePermission E input of
        Some err \<Rightarrow> (Some err, s)
      | None \<Rightarrow>
          (case ExtractCodeUpgradeFromArgs E s of
             Inl err \<Rightarrow> (Some ErrInvalidUpgradeArguments, s)
           | Inr (code, codeMetadata) \<Rightarrow>
               (let codeDeployInput =
                      \<lparr>cdi_ContractCode = code, cdi_ContractCodeMetadata = codeMetadata,
                       cdi_ContractAddress = RecipientAddr input,
                       cdi_CodeDeployerAddress = CallerAddr input\<rparr>
                in case DeductInitialGasForDirectDeployment E codeDeployInput s of
                     (Some err, s1) \<Rightarrow> (Some err, SetReturnCode OutOfGas s1)
                   | (None, s1) \<Rightarrow>
                       (let s2 = MustVerifyNextContractCode s1
                        in case StartWasmerInstance E (cdi_ContractCode codeDeployInput)
                                  (GetGasForExecution E s2) True s2 of
                             (Some err, s3) \<Rightarrow> (Some ErrContractInvalid, s3)
                           | (None, s3) \<Rightarrow>
                               (case callInitFunction E s3 of
                                  (Some err, s4) \<Rightarrow> (Some err, s4)
                                | (None, s4) \<Rightarrow>
                                    (let s5 = DeployCode codeDeployInput s4
                                     in if output_ReturnCode s5 \<noteq> Ok
                                        then (Some ErrReturnCodeNotOk, s5)
                                        else (None, s5)))))))"

text \<open>\<^verbatim>\<open>executeDelete\<close> calls \<^verbatim>\<open>doRunSmartContractDelete\<close>, drops its result and returns
  nil.\<close>

definition executeDelete :: "env \<Rightarrow> ContractCallInput \<Rightarrow> host \<Rightarrow> error option \<times> host" where
  "executeDelete E input s = (None, s)"

subsection \<open>\<^verbatim>\<open>execute\<close>\<close>

definition isInitFunctionBeingCalled :: "env \<Rightarrow> host \<Rightarrow> bool" where
  "isInitFunctionBeingCalled E s \<longleftrightarrow>
     FunctionName s = InitFunctionName \<or> FunctionName s = InitFunctionNameEth E"

definition callSCMethodIndirect :: "env \<Rightarrow> host \<Rightarrow> error option \<times> host" where
  "callSCMethodIndirect E s =
     (case FunctionNameChecked E s of
        Inl err \<Rightarrow> (if err = ErrNilCallbackFunction then None else Some err, s)
      | Inr functionName \<Rightarrow> callAndHandleBreakpoint E functionName s)"

definition execute :: "env \<Rightarrow> ContractCallInput \<Rightarrow> host \<Rightarrow> error option \<times> host" where
  "execute E input s =
     (if isInitFunctionBeingCalled E s \<and> \<not> AllowInitFunction input
      then (Some ErrInitFuncCalledInRun, s)
      else
        (let s1 = UseGas E (GasProvided input) s
         in if Function input = UpgradeFunctionName then executeUpgrade E input s1
            else if Function input = DeleteFunctionName then executeDelete E input s1
            else
              (case GetSCCode E s1 of
                 Inl err \<Rightarrow> (Some err, s1)
               | Inr contract \<Rightarrow>
                   (case DeductInitialGasForExecution E contract s1 of
                      (Some err, s2) \<Rightarrow> (Some err, s2)
                    | (None, s2) \<Rightarrow>
                        (case StartWasmerInstance E contract (GetGasForExecution E s2) False s2 of
                           (Some err, s3) \<Rightarrow> (Some err, s3)
                         | (None, s3) \<Rightarrow>
                             (case callSCMethodIndirect E s3 of
                                (Some err, s4) \<Rightarrow> (Some err, s4)
                              | (None, s4) \<Rightarrow>
                                  (if output_ReturnCode s4 \<noteq> Ok
                                   then (Some ErrReturnCodeNotOk, s4)
                                   else (None, s4))))))))"

subsection \<open>Nested calls on the same context\<close>

definition copyTxHashesFromContext :: "host \<Rightarrow> ContractCallInput \<Rightarrow> ContractCallInput" where
  "copyTxHashesFromContext s input =
     (if CallType input \<noteq> DirectCall then input
      else
        (let currentVMInput = GetVMInput s;
             input1 = (if OriginalTxHash currentVMInput \<noteq> []
                       then input\<lparr>OriginalTxHash := OriginalTxHash currentVMInput\<rparr> else input);
             input2 = (if CurrentTxHash currentVMInput \<noteq> []
                       then input1\<lparr>CurrentTxHash := CurrentTxHash currentVMInput\<rparr> else input1)
         in if PrevTxHash currentVMInput \<noteq> []
            then input2\<lparr>PrevTxHash := PrevTxHash currentVMInput\<rparr> else input2))"

definition finishExecuteOnSameContext :: "env \<Rightarrow> error option \<Rightarrow> host \<Rightarrow> host" where
  "finishExecuteOnSameContext E executeErr s =
     (if output_ReturnCode s \<noteq> Ok \<or> executeErr \<noteq> None
      then
        (let s1 = s\<lparr>managedTypesContext := PopSetActiveState (managedTypesContext s)\<rparr>;
             s2 = s1\<lparr>meteringContext := PopSetActiveState (meteringContext s1)\<rparr>;
             s3 = s2\<lparr>outputContext := PopSetActiveState (outputContext s2)\<rparr>;
             s4 = s3\<lparr>blockchainContext := PopSetActiveState (blockchainContext s3)\<rparr>
         in s4\<lparr>runtimeContext := PopSetActiveState (runtimeContext s4)\<rparr>)
      else
        (let vmOutput = GetVMOutput E s;
             s1 = s\<lparr>meteringContext := PopMergeActiveState (mergeMetering E) (meteringContext s)\<rparr>;
             s2 = s1\<lparr>outputContext := PopDiscard (outputContext s1)\<rparr>;
             s3 = s2\<lparr>blockchainContext := PopDiscard (blockchainContext s2)\<rparr>;
             s4 = s3\<lparr>managedTypesContext := PopSetActiveState (managedTypesContext s3)\<rparr>;
             s5 = s4\<lparr>runtimeContext := PopSetActiveState (runtimeContext s4)\<rparr>
         in RestoreGas E (GasRemaining vmOutput) s5))"

text \<open>
  \<^verbatim>\<open>ExecuteOnSameContext\<close> declares \<^verbatim>\<open>var err error\<close> and then runs
  \<^verbatim>\<open>defer host.finishExecuteOnSameContext(err)\<close>. Go evaluates the arguments of a deferred
  call when the \<^verbatim>\<open>defer\<close> statement executes, so the deferred call receives the value that
  \<^verbatim>\<open>err\<close> has at that point, which is nil, whatever is assigned to \<^verbatim>\<open>err\<close> afterwards.
\<close>

definition ExecuteOnSameContext :: "env \<Rightarrow> ContractCallInput \<Rightarrow> host \<Rightarrow> error option \<times> host" where
  "ExecuteOnSameContext E input s =
     (if IsBuiltinFunctionName E (Function input)
      then (Some ErrBuiltinCallOnSameContextDisallowed, s)
      else
        (let s1 = s\<lparr>managedTypesContext := PushState (managedTypesContext s)\<rparr>;
             s2 = managedTypes_InitState s1;
             s3 = s2\<lparr>outputContext := PushState (outputContext s2)\<rparr>;
             librarySCAddress = RecipientAddr input;
             input1 = (if IsRefactorContextFlagEnabled E
                       then input\<lparr>RecipientAddr := CallerAddr input\<rparr> else input);
             input2 = copyTxHashesFromContext s3 input1;
             s4 = s3\<lparr>runtimeContext := PushState (runtimeContext s3)\<rparr>;
             s5 = runtime_InitStateFromContractCallInput input2 s4;
             s6 = SetCodeAddress librarySCAddress s5;
             s7 = s6\<lparr>meteringContext := PushState (meteringContext s6)\<rparr>;
             s8 = metering_InitStateFromContractCallInput input2 s7;
             s9 = s8\<lparr>blockchainContext := PushState (blockchainContext s8)\<rparr>;
             deferredErr = None
         in case TransferValueOnly E (RecipientAddr input2) (CallerAddr input2)
                   (CallValue input2) False s9 of
              (Some err, s10) \<Rightarrow>
                (Some err,
                 finishExecuteOnSameContext E deferredErr (AddError (Some err) (Function input2) s10))
            | (None, s10) \<Rightarrow>
                (case execute E input2 s10 of
                   (err, s11) \<Rightarrow>
                     (err, finishExecuteOnSameContext E deferredErr
                             (AddError err (Function input2) s11)))))"

subsection \<open>Builtin functions\<close>

definition addOutputTransferToVMOutput ::
  "string \<Rightarrow> bytes list \<Rightarrow> bytes \<Rightarrow> bytes \<Rightarrow> CallType \<Rightarrow> VMOutput \<Rightarrow> VMOutput" where
  "addOutputTransferToVMOutput function arguments sender recipient callType vmOutput =
     (let esdtTransferTxData = function @ concat (map (\<lambda>arg. ''@'' @ hexEncode arg) arguments);
          outTransfer =
            \<lparr>ot_Value = 0, ot_GasLimit = 0, ot_GasLocked = 0, ot_AsyncData = [],
             ot_Data = bytesOfString esdtTransferTxData, ot_CallType = callType,
             ot_SenderAddress = sender\<rparr>;
          outAcc = (case map_of (OutputAccounts vmOutput) recipient of
                      None \<Rightarrow> newOutputAccount recipient
                    | Some acc \<Rightarrow> acc);
          outAcc1 = outAcc\<lparr>OutputTransfers := OutputTransfers outAcc @ [outTransfer]\<rparr>
      in vmOutput\<lparr>OutputAccounts := AList.update recipient outAcc1 (OutputAccounts vmOutput)\<rparr>)"

definition addESDTTransferToVMOutputSCIntraShardCall ::
  "env \<Rightarrow> ContractCallInput \<Rightarrow> VMOutput \<Rightarrow> VMOutput" where
  "addESDTTransferToVMOutputSCIntraShardCall E input out =
     (if ReturnCode out \<noteq> Ok then out
      else
        (case ParseESDTTransfers E (CallerAddr input) (RecipientAddr input) (Function input)
                (Arguments input) of
           Inl err \<Rightarrow> out
         | Inr parsedTransfer \<Rightarrow>
             (if \<not> AreInSameShard E (CallerAddr input) (RcvAddr parsedTransfer) then out
              else addOutputTransferToVMOutput (Function input) (Arguments input)
                     (CallerAddr input) (RcvAddr parsedTransfer) (CallType input) out)))"

definition isSCExecutionAfterBuiltInFunc ::
  "env \<Rightarrow> ContractCallInput \<Rightarrow> VMOutput \<Rightarrow> error + ContractCallInput option" where
  "isSCExecutionAfterBuiltInFunc E input vmOutput =
     (if ReturnCode vmOutput \<noteq> Ok then Inr None
      else if ReturnCallAfterError input \<and> CallType input \<noteq> AsynchronousCallBack then Inr None
      else
        (case ParseESDTTransfers E (CallerAddr input) (RecipientAddr input) (Function input)
                (Arguments input) of
           Inl err \<Rightarrow> Inr None
         | Inr parsedTransfer \<Rightarrow>
             (if \<not> AreInSameShard E (CallerAddr input) (RcvAddr parsedTransfer) then Inr None
              else if \<not> IsSmartContract E (RcvAddr parsedTransfer) then Inr None
              else
                (case map_of (OutputAccounts vmOutput) (RcvAddr parsedTransfer) of
                   None \<Rightarrow> Inr None
                 | Some outAcc \<Rightarrow>
                     (case OutputTransfers outAcc of
                        [scCallOutTransfer] \<Rightarrow>
                          (case ParseData E (stringOfBytes (ot_Data scCallOutTransfer)) of
                             Inl err \<Rightarrow> Inl err
                           | Inr (function, arguments) \<Rightarrow>
                               Inr (Some
                                 \<lparr>CallerAddr = CallerAddr input, Arguments = arguments,
                                  CallValue = 0, CallType = CallType input,
                                  GasPrice = GasPrice input,
                                  GasProvided = ot_GasLimit scCallOutTransfer,
                                  GasLocked = ot_GasLocked scCallOutTransfer,
                                  OriginalTxHash = OriginalTxHash input,
                                  CurrentTxHash = CurrentTxHash input,
                                  PrevTxHash = PrevTxHash input,
                                  ESDTTransfers = parsed_ESDTTransfers parsedTransfer,
                                  ReturnCallAfterError = False, AsyncArguments = None,
                                  RecipientAddr = RcvAddr parsedTransfer, Function = function,
                                  AllowInitFunction = False\<rparr>))
                      | _ \<Rightarrow> Inr None)))))"

text \<open>
  \<^verbatim>\<open>ProcessBuiltInFunction\<close> of the blockchain hook answers with an error, which an output
  may accompany (\<open>Inl\<close>), or with an output (\<open>Inr\<close>). Its callers read the output without a
  nil check once they have seen no error, so they rely on the hook to return one of the
  two; an answer with neither is not among the values of the type.

  \<^verbatim>\<open>callBuiltinFunction\<close> and \<^verbatim>\<open>handleBuiltinFunctionCall\<close> return \<^verbatim>\<open>(nil, nil, err)\<close> on
  every failure and an output on success: \<open>Inl err\<close>, or \<open>Inr\<close> of the input of the contract
  call that follows the builtin function, if any, and the output.
\<close>

definition callBuiltinFunction ::
  "env \<Rightarrow> ContractCallInput \<Rightarrow> host
     \<Rightarrow> (error + ContractCallInput option \<times> VMOutput) \<times> host" where
  "callBuiltinFunction E input s =
     (if ReadOnly s then (Inl ErrInvalidCallOnReadOnlyMode, s)
      else
        (case ProcessBuiltInFunction E input of
           Inl (_, err) \<Rightarrow> (Inl err, UseGas E (GasProvided input) s)
         | Inr vmOutput \<Rightarrow>
             (case isSCExecutionAfterBuiltInFunc E input vmOutput of
                Inl err \<Rightarrow> (Inl err, UseGas E (GasProvided input) s)
              | Inr newVMInput \<Rightarrow>
                  (let vmOutput1 =
                         (if newVMInput \<noteq> None
                          then vmOutput\<lparr>OutputAccounts :=
                                 map (\<lambda>(a, outAcc). (a, outAcc\<lparr>OutputTransfers := []\<rparr>))
                                   (OutputAccounts vmOutput)\<rparr>
                          else vmOutput);
                       s1 = TrackGasUsedByBuiltinFunction E input vmOutput1 newVMInput s;
                       vmOutput2 = addESDTTransferToVMOutputSCIntraShardCall E input vmOutput1
                   in (Inr (newVMInput, vmOutput2), s1)))))"

definition handleBuiltinFunctionCall ::
  "env \<Rightarrow> ContractCallInput \<Rightarrow> host
     \<Rightarrow> (error + ContractCallInput option \<times> VMOutput) \<times> host" where
  "handleBuiltinFunctionCall E input s =
     (case callBuiltinFunction E input s of
        (Inl err, s1) \<Rightarrow> (Inl err, s1)
      | (Inr (postBuiltinInput, builtinOutput), s1) \<Rightarrow>
          (let postBuiltinInput1 =
                 map_option (\<lambda>p. p\<lparr>AsyncArguments := AsyncArguments input\<rparr>) postBuiltinInput
           in case AddAsyncArgumentsToOutputTransfers E (RecipientAddr input)
                     (AsyncArguments input) AsynchronousCall builtinOutput of
                Inl err \<Rightarrow> (Inl err, s1)
              | Inr builtinOutput1 \<Rightarrow>
                  (Inr (postBuiltinInput1, builtinOutput1),
                   AddToActiveState E builtinOutput1 s1)))"

subsection \<open>Nested calls on the destination context\<close>

definition finishExecuteOnDestContext :: "env \<Rightarrow> error option \<Rightarrow> host \<Rightarrow> VMOutput \<times> host" where
  "finishExecuteOnDestContext E executeErr s =
     (let vmOutput0 = (case executeErr of
                         Some err \<Rightarrow> CreateVMOutputInCaseOfError E err
                       | None \<Rightarrow> GetVMOutput E s);
          s1 = asyncSetResults E vmOutput0 s;
          (vmOutput, s2) =
            (if \<not> asyncIsComplete E s1
             then (case asyncSave E s1 of
                     (Some saveErr, s') \<Rightarrow> (CreateVMOutputInCaseOfError E saveErr, s')
                   | (None, s') \<Rightarrow> (vmOutput0, s'))
             else (vmOutput0, s1));
          s3 = s2\<lparr>managedTypesContext := PopSetActiveState (managedTypesContext s2)\<rparr>;
          s4 = s3\<lparr>storageContext := PopSetActiveState (storageContext s3)\<rparr>;
          s5 = (if ReturnCode vmOutput = Ok
                then (let t = s4\<lparr>meteringContext :=
                                   PopMergeActiveState (mergeMetering E) (meteringContext s4)\<rparr>
                      in t\<lparr>outputContext :=
                             PopMergeActiveState (mergeVMOutputs E) (outputContext t)\<rparr>)
                else (let t = s4\<lparr>meteringContext := PopSetActiveState (meteringContext s4)\<rparr>
                      in t\<lparr>outputContext := PopSetActiveState (outputContext t)\<rparr>));
          isAsyncCall = (CallType (GetVMInput s5) = AsynchronousCall);
          isAsyncComplete = asyncIsComplete E s5;
          s6 = s5\<lparr>runtimeContext := PopSetActiveState (runtimeContext s5)\<rparr>;
          s7 = s6\<lparr>asyncContext := PopSetActiveState (asyncContext s6)\<rparr>;
          s8 = (if \<not> isAsyncCall \<or> isAsyncComplete
                then RestoreGas E (GasRemaining vmOutput) s7 else s7)
      in (vmOutput, s8))"

text \<open>The deferred closure of \<^verbatim>\<open>executeOnDestContextNoBuiltinFunction\<close>: it reads the
  named result \<^verbatim>\<open>err\<close> when the function returns and replaces \<^verbatim>\<open>vmOutput\<close> and
  \<^verbatim>\<open>err\<close>.\<close>

definition deferredFinishOnDest ::
  "env \<Rightarrow> ContractCallInput \<Rightarrow> bool \<Rightarrow> error option \<Rightarrow> host
     \<Rightarrow> (VMOutput option \<times> bool \<times> error option) \<times> host" where
  "deferredFinishOnDest E input isChildComplete err s =
     (let (vmOutput, s1) = finishExecuteOnDestContext E err s;
          err1 = (if err = None \<and> ReturnCode vmOutput \<noteq> Ok then Some ErrExecutionFailed else err)
      in ((Some vmOutput, isChildComplete, err1), AddError err1 (Function input) s1))"

definition executeOnDestContextNoBuiltinFunction ::
  "env \<Rightarrow> ContractCallInput \<Rightarrow> host \<Rightarrow> (VMOutput option \<times> bool \<times> error option) \<times> host" where
  "executeOnDestContextNoBuiltinFunction E input0 s =
     (let s1 = s\<lparr>managedTypesContext := PushState (managedTypesContext s)\<rparr>;
          s2 = managedTypes_InitState s1;
          s3 = s2\<lparr>outputContext := PushState (outputContext s2)\<rparr>;
          s4 = s3\<lparr>outputContext := active_update (CensorVMOutput E) (outputContext s3)\<rparr>;
          input = copyTxHashesFromContext s4 input0;
          s5 = s4\<lparr>runtimeContext := PushState (runtimeContext s4)\<rparr>;
          s6 = runtime_InitStateFromContractCallInput input s5;
          s7 = s6\<lparr>asyncContext := PushState (asyncContext s6)\<rparr>
      in case asyncInitStateFromInput E input s7 of
           (Some err, s8) \<Rightarrow> ((None, True, Some err), AddError (Some err) (Function input) s8)
         | (None, s8) \<Rightarrow>
             (let s9 = s8\<lparr>meteringContext := PushState (meteringContext s8)\<rparr>;
                  s10 = metering_InitStateFromContractCallInput input s9;
                  s11 = s10\<lparr>storageContext := PushState (storageContext s10)\<rparr>;
                  s12 = storage_SetAddress (GetContextAddress s11) s11;
                  (transferErr, s13) =
                    (if CallType input \<noteq> AsynchronousCallBack \<or> CallValue input = 0
                     then TransferValueOnly E (RecipientAddr input) (CallerAddr input)
                            (CallValue input) False s12
                     else (None, s12))
              in case transferErr of
                   Some err \<Rightarrow> deferredFinishOnDest E input True (Some err) s13
                 | None \<Rightarrow>
                     (case execute E input s13 of
                        (Some err, s14) \<Rightarrow> deferredFinishOnDest E input True (Some err) s14
                      | (None, s14) \<Rightarrow>
                          (case asyncExecute E s14 of
                             (err, s15) \<Rightarrow>
                               deferredFinishOnDest E input (asyncIsComplete E s15) err s15))))"

definition ExecuteOnDestContext ::
  "env \<Rightarrow> ContractCallInput \<Rightarrow> host \<Rightarrow> (VMOutput option \<times> bool \<times> error option) \<times> host" where
  "ExecuteOnDestContext E input s =
     (let s1 = s\<lparr>blockchainContext := PushState (blockchainContext s)\<rparr>;
          (builtin, s2) =
            (if IsBuiltinFunctionName E (Function input)
             then (case handleBuiltinFunctionCall E input s1 of
                     (Inl err, t) \<Rightarrow> (Inl err, t)
                   | (Inr (postBuiltinInput, builtinOutput), t) \<Rightarrow>
                       (Inr (postBuiltinInput, Some builtinOutput), t))
             else (Inr (Some input, None), s1))
      in case builtin of
           Inl err \<Rightarrow>
             (let s3 = s2\<lparr>blockchainContext := PopSetActiveState (blockchainContext s2)\<rparr>;
                  s4 = AddError (Some err) (Function input) s3
              in ((Some (CreateVMOutputInCaseOfError E err), True, Some err), s4))
         | Inr (scExecutionInput, vmOutput0) \<Rightarrow>
             (let ((vmOutput, isChildComplete, err), s3) =
                    (case scExecutionInput of
                       Some scInput \<Rightarrow> executeOnDestContextNoBuiltinFunction E scInput s2
                     | None \<Rightarrow> ((vmOutput0, True, None), s2))
              in if err \<noteq> None
                 then ((vmOutput, isChildComplete, err),
                       s3\<lparr>blockchainContext := PopSetActiveState (blockchainContext s3)\<rparr>)
                 else ((vmOutput, isChildComplete, err),
                       s3\<lparr>blockchainContext := PopDiscard (blockchainContext s3)\<rparr>)))"

subsection \<open>Indirect contract creation and ESDT transfers\<close>

definition CreateNewContract :: "env \<Rightarrow> ContractCreateInput \<Rightarrow> host \<Rightarrow> (error + bytes) \<times> host" where
  "CreateNewContract E input s =
     (let codeDeployInput =
            \<lparr>cdi_ContractCode = ContractCode input,
             cdi_ContractCodeMetadata = ContractCodeMetadata input,
             cdi_ContractAddress = [], cdi_CodeDeployerAddress = CallerAddr input\<rparr>
      in case DeductInitialGasForIndirectDeployment E codeDeployInput s of
           (Some err, s1) \<Rightarrow> (Inl err, s1)
         | (None, s1) \<Rightarrow>
             (if ReadOnly s1 then (Inl ErrInvalidCallOnReadOnlyMode, s1)
              else
                (case NewAddress E (CallerAddr input) of
                   Inl err \<Rightarrow> (Inl err, s1)
                 | Inr newContractAddress \<Rightarrow>
                     (if AccountExists E newContractAddress
                      then (Inl ErrDeploymentOverExistingAccount, s1)
                      else
                        (let codeDeployInput1 =
                               codeDeployInput\<lparr>cdi_ContractAddress := newContractAddress\<rparr>;
                             s2 = DeployCode codeDeployInput1 s1;
                             s3 = MustVerifyNextContractCode s2;
                             initCallInput0 =
                               \<lparr>CallerAddr = CallerAddr input, Arguments = Arguments input,
                                CallValue = CallValue input, CallType = CallType input,
                                GasPrice = GasPrice input, GasProvided = GasProvided input,
                                GasLocked = GasLocked input,
                                OriginalTxHash = OriginalTxHash input,
                                CurrentTxHash = CurrentTxHash input,
                                PrevTxHash = PrevTxHash input,
                                ESDTTransfers = ESDTTransfers input,
                                ReturnCallAfterError = ReturnCallAfterError input,
                                AsyncArguments = AsyncArguments input,
                                RecipientAddr = newContractAddress,
                                Function = InitFunctionName, AllowInitFunction = True\<rparr>;
                             initCallInput = SetAsyncArgumentsForCall E initCallInput0 s3
                         in case ExecuteOnDestContext E initCallInput s3 of
                              ((_, isChildComplete, Some err), s4) \<Rightarrow>
                                (Inl err, DeleteOutputAccount newContractAddress s4)
                            | ((_, isChildComplete, None), s4) \<Rightarrow>
                                (case CompleteChildConditional E isChildComplete s4 of
                                   (Some err, s5) \<Rightarrow>
                                     (Inl err, DeleteOutputAccount newContractAddress s5)
                                 | (None, s5) \<Rightarrow>
                                     (Inr newContractAddress,
                                      s5\<lparr>blockchainContext :=
                                           active_update (IncreaseNonce E (CallerAddr input))
                                             (blockchainContext s5)\<rparr>)))))))"

definition BuiltInFunctionESDTTransfer :: string where
  "BuiltInFunctionESDTTransfer = ''ESDTTransfer''"
definition BuiltInFunctionESDTNFTTransfer :: string where
  "BuiltInFunctionESDTNFTTransfer = ''ESDTNFTTransfer''"
definition BuiltInFunctionMultiESDTNFTTransfer :: string where
  "BuiltInFunctionMultiESDTNFTTransfer = ''MultiESDTNFTTransfer''"

text \<open>\<^verbatim>\<open>big.NewInt(0).SetUint64(x).Bytes()\<close>.\<close>

definition uint64Bytes :: "64 word \<Rightarrow> bytes" where
  "uint64Bytes x = natBytes (unat x)"

definition esdtTransferCallInput ::
  "bytes \<Rightarrow> bytes \<Rightarrow> ESDTTransfer list \<Rightarrow> CallType \<Rightarrow> 64 word \<Rightarrow> 64 word \<Rightarrow> ContractCallInput" where
  "esdtTransferCallInput destination sender transfers callType gasPrice gasLeft =
     (let esdtTransferInput =
            emptyCallInput\<lparr>CallerAddr := sender, Arguments := [], CallValue := 0,
              CallType := callType, GasPrice := gasPrice, GasProvided := gasLeft,
              GasLocked := 0, RecipientAddr := destination,
              Function := BuiltInFunctionESDTTransfer, AllowInitFunction := False\<rparr>
      in case transfers of
           [t] \<Rightarrow>
             (if 0 < ESDTTokenNonce t
              then esdtTransferInput\<lparr>Function := BuiltInFunctionESDTNFTTransfer,
                     RecipientAddr := CallerAddr esdtTransferInput,
                     Arguments := [ESDTTokenName t, uint64Bytes (ESDTTokenNonce t),
                                   bigIntBytes (ESDTValue t), destination]\<rparr>
              else esdtTransferInput\<lparr>Arguments := [ESDTTokenName t, bigIntBytes (ESDTValue t)]\<rparr>)
         | _ \<Rightarrow>
             esdtTransferInput\<lparr>Function := BuiltInFunctionMultiESDTNFTTransfer,
               RecipientAddr := CallerAddr esdtTransferInput,
               Arguments :=
                 [destination, bigIntBytes (int (length transfers))] @
                 concat (map (\<lambda>t. [ESDTTokenName t, uint64Bytes (ESDTTokenNonce t),
                                    bigIntBytes (ESDTValue t)]) transfers)\<rparr>)"

definition ExecuteESDTTransfer ::
  "env \<Rightarrow> bytes \<Rightarrow> bytes \<Rightarrow> ESDTTransfer list \<Rightarrow> CallType \<Rightarrow> host
     \<Rightarrow> (VMOutput option \<times> 64 word \<times> error option) \<times> host" where
  "ExecuteESDTTransfer E destination sender transfers callType s =
     (if length transfers = 0 then ((None, 0, Some ErrFailedTransfer), s)
      else if ReadOnly s then ((None, 0, Some ErrInvalidCallOnReadOnlyMode), s)
      else
        (let esdtTransferInput =
               esdtTransferCallInput destination sender transfers callType
                 (GasPrice (GetVMInput s)) (GasLeft E s)
         in case ProcessBuiltInFunction E esdtTransferInput of
              Inl (vmOutput, err) \<Rightarrow> ((vmOutput, GasProvided esdtTransferInput, Some err), s)
            | Inr vmOutput \<Rightarrow>
                (if ReturnCode vmOutput \<noteq> Ok
                 then ((Some vmOutput, GasProvided esdtTransferInput, Some ErrExecutionFailed), s)
                 else
                   (let gasConsumed0 =
                          SubUint64 E (GasProvided esdtTransferInput) (GasRemaining vmOutput);
                        gasConsumed =
                          fold (\<lambda>t g. SubUint64 E g (ot_GasLimit t))
                            (concat (map (\<lambda>(a, outAcc). OutputTransfers outAcc)
                                       (OutputAccounts vmOutput)))
                            gasConsumed0
                    in if callType \<noteq> AsynchronousCallBack
                       then (if GasLeft E s < gasConsumed
                             then ((Some vmOutput, GasProvided esdtTransferInput,
                                    Some ErrNotEnoughGas), s)
                             else ((Some vmOutput, gasConsumed, None), UseGas E gasConsumed s))
                       else ((Some vmOutput, gasConsumed, None), s)))))"

subsection \<open>What a call may attempt to leave behind\<close>

text \<open>
  The operations through which a call changes the accounts of its output: a write to the
  storage, an outbound transfer, an ESDT transfer, a call of a builtin function and the
  creation of a contract. \<open>perform\<close> runs one of them on the host and returns its error;
  \<open>performAll\<close> runs a list of them one after the other, each on the host that the one
  before has left.
\<close>

datatype attempt =
    StorageMutation bytes bytes
  | OutboundTransfer bytes bytes "64 word" "64 word" int bytes bytes CallType
  | ESDTTransferAttempt bytes bytes "ESDTTransfer list" CallType
  | BuiltinFunctionCall ContractCallInput
  | ContractCreation ContractCreateInput

fun perform :: "env \<Rightarrow> attempt \<Rightarrow> host \<Rightarrow> error option \<times> host" where
  "perform E (StorageMutation key data) s =
     (case SetStorage E key data s of ((status, err), s1) \<Rightarrow> (err, s1))"
| "perform E (OutboundTransfer dest sender gasLimit gasLocked val asyncData data callType) s =
     Transfer E dest sender gasLimit gasLocked val asyncData data callType s"
| "perform E (ESDTTransferAttempt dest sender transfers callType) s =
     (case ExecuteESDTTransfer E dest sender transfers callType s of
        ((vmOutput, gas, err), s1) \<Rightarrow> (err, s1))"
| "perform E (BuiltinFunctionCall input) s =
     (case callBuiltinFunction E input s of
        (Inl err, s1) \<Rightarrow> (Some err, s1)
      | (Inr r, s1) \<Rightarrow> (None, s1))"
| "perform E (ContractCreation input) s =
     (case CreateNewContract E input s of
        (Inl err, s1) \<Rightarrow> (Some err, s1)
      | (Inr newContractAddress, s1) \<Rightarrow> (None, s1))"

fun performAll :: "env \<Rightarrow> attempt list \<Rightarrow> host \<Rightarrow> error option list \<times> host" where
  "performAll E [] s = ([], s)"
| "performAll E (a # rest) s =
     (let (err, s1) = perform E a s;
          (errs, s2) = performAll E rest s1
      in (err # errs, s2))"

text \<open>The storage updates of a \<open>VMOutput\<close>, each with the address of its account, and its
  output transfers of a value other than zero.\<close>

definition storageUpdatesOf :: "VMOutput \<Rightarrow> (bytes \<times> bytes \<times> bytes) list" where
  "storageUpdatesOf out =
     concat (map (\<lambda>(a, acc). map (Pair a) (StorageUpdates acc)) (OutputAccounts out))"

definition valueTransfersOf :: "VMOutput \<Rightarrow> OutputTransfer list" where
  "valueTransfersOf out =
     concat (map (\<lambda>(a, acc). filter (\<lambda>t. ot_Value t \<noteq> 0) (OutputTransfers acc))
               (OutputAccounts out))"

section \<open>The hooks that open nested calls\<close>

fun createInt32Chunks :: "bytes \<Rightarrow> 32 word list" where
  "createInt32Chunks (a # b # c # d # rest) = word_rcat [d, c, b, a] # createInt32Chunks rest"
| "createInt32Chunks rest = []"

text \<open>\<^verbatim>\<open>createInt32Array\<close> fills an array of \<open>numIntegers\<close> zeros with the little-endian
  integers of the raw data, four bytes each. (The raw data is what \<^verbatim>\<open>MemLoad\<close> returned
  for \<open>numIntegers * 4\<close> bytes; with more data than that the Go code panics.)\<close>

definition createInt32Array :: "bytes \<Rightarrow> 32 word \<Rightarrow> 32 word list" where
  "createInt32Array rawData numIntegers =
     take (nat (sint numIntegers))
       (createInt32Chunks rawData @ replicate (nat (sint numIntegers)) 0)"

text \<open>\<^verbatim>\<open>fmt.Errorf\<close> with \<^verbatim>\<open>%d\<close>: the decimal digits of an integer, with a minus sign.\<close>

fun decimalNat :: "nat \<Rightarrow> string" where
  "decimalNat n =
     (if n < 10 then [''0123456789'' ! n]
      else decimalNat (n div 10) @ [''0123456789'' ! (n mod 10)])"

declare decimalNat.simps [simp del]

definition formatInt :: "int \<Rightarrow> string" where
  "formatInt x = (if x < 0 then ''-'' @ decimalNat (nat (- x)) else decimalNat (nat x))"

definition getArgumentsFromMemory ::
  "env \<Rightarrow> 32 word \<Rightarrow> 32 word \<Rightarrow> 32 word \<Rightarrow> host \<Rightarrow> error + (bytes list \<times> 32 word)" where
  "getArgumentsFromMemory E numArguments argumentsLengthOffset dataOffset s =
     (if sint numArguments < 0
      then Inl (ErrExternal (''negative numArguments ('' @ formatInt (sint numArguments) @ '')''))
      else
        (case runtime_MemLoad E argumentsLengthOffset (numArguments * 4) s of
           Inl err \<Rightarrow> Inl err
         | Inr argumentsLengthData \<Rightarrow>
             (let argumentLengths = createInt32Array argumentsLengthData numArguments
              in case MemLoadMultiple E (memory s) dataOffset argumentLengths of
                   Inl err \<Rightarrow> Inl err
                 | Inr data \<Rightarrow> Inr (data, fold (\<lambda>len total. total + len) argumentLengths 0))))"

record indirectContractCallArguments =
  ica_dest :: bytes
  ica_value :: "int option"
  ica_function :: bytes
  ica_args :: "bytes list"
  ica_actualLen :: "32 word"

text \<open>\<^verbatim>\<open>big.NewInt(0).SetBytes(b)\<close>: the big-endian unsigned value of the bytes.\<close>

definition bigIntSetBytes :: "bytes \<Rightarrow> int" where
  "bigIntSetBytes b = int (foldl (\<lambda>acc x. acc * 256 + unat x) 0 b)"

definition extractIndirectContractCallArguments ::
  "env \<Rightarrow> 32 word \<Rightarrow> 32 word \<Rightarrow> bool \<Rightarrow> 32 word \<Rightarrow> 32 word \<Rightarrow> 32 word \<Rightarrow> 32 word \<Rightarrow> 32 word
     \<Rightarrow> host \<Rightarrow> (error + indirectContractCallArguments) \<times> host" where
  "extractIndirectContractCallArguments E destOffset valueOffset hasValueOffset functionOffset
      functionLength numArguments argumentsLengthOffset dataOffset s =
     (case runtime_MemLoad E destOffset (AddressLen E) s of
        Inl err \<Rightarrow> (Inl err, s)
      | Inr dest \<Rightarrow>
          (case (if hasValueOffset
                 then map_sum id (\<lambda>valueBytes. Some (bigIntSetBytes valueBytes))
                        (runtime_MemLoad E valueOffset (BalanceLen E) s)
                 else Inr None) of
             Inl err \<Rightarrow> (Inl err, s)
           | Inr val \<Rightarrow>
               (case runtime_MemLoad E functionOffset functionLength s of
                  Inl err \<Rightarrow> (Inl err, s)
                | Inr function \<Rightarrow>
                    (case getArgumentsFromMemory E numArguments argumentsLengthOffset dataOffset s of
                       Inl err \<Rightarrow> (Inl err, s)
                     | Inr (args, actualLen) \<Rightarrow>
                         (let gasToUse = MulUint64 E (cost_DataCopyPerByte (BaseOperationCost E))
                                           (scast actualLen)
                          in (Inr \<lparr>ica_dest = dest, ica_value = val, ica_function = function,
                                   ica_args = args, ica_actualLen = actualLen\<rparr>,
                              UseAndTraceGas E gasToUse s))))))"

definition extractIndirectContractCallArgumentsWithoutValue ::
  "env \<Rightarrow> 32 word \<Rightarrow> 32 word \<Rightarrow> 32 word \<Rightarrow> 32 word \<Rightarrow> 32 word \<Rightarrow> 32 word
     \<Rightarrow> host \<Rightarrow> (error + indirectContractCallArguments) \<times> host" where
  "extractIndirectContractCallArgumentsWithoutValue E destOffset functionOffset functionLength
      numArguments argumentsLengthOffset dataOffset s =
     extractIndirectContractCallArguments E destOffset 0 False functionOffset functionLength
       numArguments argumentsLengthOffset dataOffset s"

definition prepareIndirectContractCallInput ::
  "env \<Rightarrow> bytes \<Rightarrow> int \<Rightarrow> 64 word \<Rightarrow> bytes \<Rightarrow> bytes \<Rightarrow> bytes list \<Rightarrow> 64 word \<Rightarrow> bool
     \<Rightarrow> host \<Rightarrow> error + ContractCallInput" where
  "prepareIndirectContractCallInput E sender val gasLimit destination function data unused
      syncExecutionRequired s =
     (if syncExecutionRequired \<and> \<not> AreInSameShard E (GetContextAddress s) destination
      then Inl ErrSyncExecutionNotInSameShard
      else Inr (emptyCallInput\<lparr>CallerAddr := sender, Arguments := data, CallValue := val,
                  GasPrice := 0, GasProvided := BoundGasLimit E gasLimit s,
                  CallType := DirectCall, RecipientAddr := destination,
                  Function := stringOfBytes function\<rparr>))"

definition executeOnDestContextFromAPI ::
  "env \<Rightarrow> ContractCallInput \<Rightarrow> host \<Rightarrow> (VMOutput option \<times> error option) \<times> host" where
  "executeOnDestContextFromAPI E input0 s =
     (let input = SetAsyncArgumentsForCall E input0 s
      in case ExecuteOnDestContext E input s of
           ((vmOutput, isChildComplete, Some err), s1) \<Rightarrow> ((None, Some err), s1)
         | ((vmOutput, isChildComplete, None), s1) \<Rightarrow>
             (case CompleteChildConditional E isChildComplete s1 of
                (Some err, s2) \<Rightarrow> ((None, Some err), s2)
              | (None, s2) \<Rightarrow> ((vmOutput, None), s2)))"

definition ExecuteReadOnlyWithTypedArguments ::
  "env \<Rightarrow> 64 word \<Rightarrow> bytes \<Rightarrow> bytes \<Rightarrow> bytes list \<Rightarrow> host \<Rightarrow> 32 word \<times> host" where
  "ExecuteReadOnlyWithTypedArguments E gasLimit function dest args s =
     (let gasToUse = cost_ExecuteReadOnly (ElrondAPICost E);
          s1 = UseAndTraceGas E gasToUse s;
          sender = GetContextAddress s1
      in case prepareIndirectContractCallInput E sender 0 gasLimit dest function args gasToUse
                True s1 of
           Inl err \<Rightarrow>
             (- 1, snd (WithFault E (Some err) (ElrondAPIErrorShouldFailExecution E) s1))
         | Inr contractCallInput \<Rightarrow>
             (if IsBuiltinFunctionName E (Function contractCallInput)
              then (1, snd (WithFault E (Some ErrInvalidBuiltInFunctionCall)
                              (ElrondAPIErrorShouldFailExecution E) s1))
              else
                (let wasReadOnly = ReadOnly s1;
                     s2 = SetReadOnly True s1;
                     ((vmOutput, err), s3) = executeOnDestContextFromAPI E contractCallInput s2;
                     s4 = SetReadOnly wasReadOnly s3;
                     (fault, s5) = WithFault E err (ElrondAPIErrorShouldFailExecution E) s4
                 in if fault then (- 1, s5) else (0, s5))))"

definition ExecuteReadOnlyWithHost ::
  "env \<Rightarrow> 64 word \<Rightarrow> 32 word \<Rightarrow> 32 word \<Rightarrow> 32 word \<Rightarrow> 32 word \<Rightarrow> 32 word \<Rightarrow> 32 word
     \<Rightarrow> host \<Rightarrow> 32 word \<times> host" where
  "ExecuteReadOnlyWithHost E gasLimit addressOffset functionOffset functionLength numArguments
      argumentsLengthOffset dataOffset s =
     (case extractIndirectContractCallArgumentsWithoutValue E addressOffset functionOffset
             functionLength numArguments argumentsLengthOffset dataOffset s of
        (Inl err, s1) \<Rightarrow>
          (- 1, snd (WithFault E (Some err) (ElrondAPIErrorShouldFailExecution E) s1))
      | (Inr callArgs, s1) \<Rightarrow>
          ExecuteReadOnlyWithTypedArguments E gasLimit (ica_function callArgs) (ica_dest callArgs)
            (ica_args callArgs) s1)"

definition ExecuteReadOnly ::
  "env \<Rightarrow> 64 word \<Rightarrow> 32 word \<Rightarrow> 32 word \<Rightarrow> 32 word \<Rightarrow> 32 word \<Rightarrow> 32 word \<Rightarrow> 32 word
     \<Rightarrow> host \<Rightarrow> 32 word \<times> host" where
  "ExecuteReadOnly E gasLimit addressOffset functionOffset functionLength numArguments
      argumentsLengthOffset dataOffset s =
     ExecuteReadOnlyWithHost E gasLimit addressOffset functionOffset functionLength numArguments
       argumentsLengthOffset dataOffset (StartGasTracing executeReadOnlyName s)"

section \<open>Cross-shard callbacks (\<^verbatim>\<open>asyncRemote.go\<close>)\<close>

text \<open>
  \<^verbatim>\<open>txDataBuilder\<close> of the library \<^verbatim>\<open>elrond-vm-common\<close>: a function name and a list of
  elements; \<open>Bytes\<close> and \<open>Str\<close> append one element in hexadecimal, \<open>ToBytes\<close> joins the
  function name and the elements with \<open>@\<close> (section 6 of the specification gives this wire
  format for the data that the same builder produces for an asynchronous call).
\<close>

record TxDataBuilder =
  tdb_function :: string
  tdb_elements :: "string list"

definition NewBuilder :: TxDataBuilder where
  "NewBuilder = \<lparr>tdb_function = [], tdb_elements = []\<rparr>"

definition Func :: "string \<Rightarrow> TxDataBuilder \<Rightarrow> TxDataBuilder" where
  "Func f b = b\<lparr>tdb_function := f\<rparr>"

definition Bytes :: "bytes \<Rightarrow> TxDataBuilder \<Rightarrow> TxDataBuilder" where
  "Bytes x b = b\<lparr>tdb_elements := tdb_elements b @ [hexEncode x]\<rparr>"

definition Str :: "string \<Rightarrow> TxDataBuilder \<Rightarrow> TxDataBuilder" where
  "Str x b = b\<lparr>tdb_elements := tdb_elements b @ [hexEncode (bytesOfString x)]\<rparr>"

definition ToBytes :: "TxDataBuilder \<Rightarrow> bytes" where
  "ToBytes b = bytesOfString (tdb_function b @ concat (map (\<lambda>e. ''@'' @ e) (tdb_elements b)))"

definition callbackNamePlaceholder :: string where
  "callbackNamePlaceholder = ''<callback>''"

definition createDataForCrossShardCallback ::
  "env \<Rightarrow> ReturnCode \<Rightarrow> bytes list \<Rightarrow> string \<Rightarrow> async_state \<Rightarrow> (bytes \<times> bytes) \<times> async_state" where
  "createDataForCrossShardCallback E returnCode returnData returnMessage a =
     (let (newCallID, a1) = generateNewCallID E a;
          asyncData = Bytes newCallID NewBuilder;
          asyncData = Bytes (as_callID a1) asyncData;
          asyncData = Bytes (as_callerCallID a1) asyncData;
          asyncData = Bytes (bigIntBytes (sint (as_gasAccumulated a1))) asyncData;
          transferData = Func callbackNamePlaceholder NewBuilder;
          transferData = Bytes (ReturnCodeToBytes E returnCode) transferData;
          transferData = (if returnCode = Ok then fold Bytes returnData transferData
                          else Str returnMessage transferData)
      in ((ToBytes asyncData, ToBytes transferData), a1))"

definition sendCrossShardCallback ::
  "env \<Rightarrow> bytes \<Rightarrow> bytes \<Rightarrow> bytes \<Rightarrow> bytes \<Rightarrow> host \<Rightarrow> error option \<times> host" where
  "sendCrossShardCallback E sender destination asyncData data s =
     (let gasLeft = GasLeft E s;
          s1 = UseGas E gasLeft s
      in case Transfer E destination sender gasLeft 0 0 asyncData data AsynchronousCallBack s1 of
           (Some err, s2) \<Rightarrow> (Some err, FailExecution E err s2)
         | (None, s2) \<Rightarrow> (None, s2))"

definition SendCrossShardCallback ::
  "env \<Rightarrow> ReturnCode \<Rightarrow> bytes list \<Rightarrow> string \<Rightarrow> host \<Rightarrow> error option \<times> host" where
  "SendCrossShardCallback E returnCode returnData returnMessage s =
     (let sender = as_address (active (asyncContext s));
          destination = as_callerAddr (active (asyncContext s));
          ((asyncData, data), a1) =
            createDataForCrossShardCallback E returnCode returnData returnMessage
              (active (asyncContext s));
          s1 = s\<lparr>asyncContext := (asyncContext s)\<lparr>active := a1\<rparr>\<rparr>
      in sendCrossShardCallback E sender destination asyncData data s1)"

section \<open>A concrete environment and host\<close>

text \<open>
  One instance of the collaborators, for evaluating the model on concrete inputs: a
  bounds-checked linear memory, saturating gas arithmetic, one shard, a blockchain hook that
  knows the contract \<open>[2]\<close> (upgradeable, owned by \<open>[3]\<close>) and the contract \<open>[1]\<close> (not
  upgradeable), guest code that does nothing, and an async context that is always complete.
\<close>

definition exampleMemLoad :: "bytes \<Rightarrow> 32 word \<Rightarrow> 32 word \<Rightarrow> error + bytes" where
  "exampleMemLoad m offset len =
     (if sint offset < 0 \<or> sint len < 0 \<or> length m < nat (sint offset) + nat (sint len)
      then Inl (ErrExternal ''mem load: bad bounds'')
      else Inr (take (nat (sint len)) (drop (nat (sint offset)) m)))"

definition exampleMemStore :: "bytes \<Rightarrow> 32 word \<Rightarrow> bytes \<Rightarrow> error + bytes" where
  "exampleMemStore m offset data =
     (if sint offset < 0 \<or> length m < nat (sint offset) + length data
      then Inl (ErrExternal ''mem store: bad bounds'')
      else Inr (take (nat (sint offset)) m @ data @ drop (nat (sint offset) + length data) m))"

definition exampleAddUint64 :: "64 word \<Rightarrow> 64 word \<Rightarrow> 64 word" where
  "exampleAddUint64 a b = (if a + b < a then - 1 else a + b)"

definition exampleSubUint64 :: "64 word \<Rightarrow> 64 word \<Rightarrow> 64 word" where
  "exampleSubUint64 a b = (if a < b then 0 else a - b)"

definition exampleMulUint64 :: "64 word \<Rightarrow> 64 word \<Rightarrow> 64 word" where
  "exampleMulUint64 a b = (if unat a * unat b < 2 ^ 64 then a * b else - 1)"

definition exampleGetUserAccount :: "bytes \<Rightarrow> error + UserAccount option" where
  "exampleGetUserAccount a =
     (if a = [2] then Inr (Some \<lparr>GetCodeMetadata = [1, 0], GetOwnerAddress = [3]\<rparr>)
      else if a = [1] then Inr (Some \<lparr>GetCodeMetadata = [0, 0], GetOwnerAddress = [3]\<rparr>)
      else Inr None)"

definition exampleResolveReturnCode :: "error \<Rightarrow> ReturnCode" where
  "exampleResolveReturnCode e =
     (case e of
        ErrNotEnoughGas \<Rightarrow> OutOfGas
      | ErrContractInvalid \<Rightarrow> ContractInvalid
      | ErrContractNotFound \<Rightarrow> ContractNotFound
      | ErrTransferInsufficientFunds \<Rightarrow> OutOfFunds
      | _ \<Rightarrow> ExecutionFailed)"

definition exampleCensorVMOutput :: "VMOutput \<Rightarrow> VMOutput" where
  "exampleCensorVMOutput out =
     out\<lparr>ReturnData := [], ReturnCode := Ok, ReturnMessage := [], GasRemaining := 0,
         GasRefund := 0, Logs := []\<rparr>"

definition exampleMergeVMOutputs :: "VMOutput \<Rightarrow> VMOutput \<Rightarrow> VMOutput" where
  "exampleMergeVMOutputs p c =
     p\<lparr>ReturnData := ReturnData p @ ReturnData c,
       OutputAccounts := fold (\<lambda>(a, acc). AList.update a acc) (OutputAccounts c) (OutputAccounts p),
       Logs := Logs p @ Logs c\<rparr>"

definition exampleMergeMetering :: "metering_state \<Rightarrow> metering_state \<Rightarrow> metering_state" where
  "exampleMergeMetering p c =
     p\<lparr>gasSpent := exampleAddUint64 (gasSpent p) (gasSpent c), gasTrace := gasTrace p @ gasTrace c\<rparr>"

definition exampleAddTxValueToAccount :: "bytes \<Rightarrow> int \<Rightarrow> VMOutput \<Rightarrow> VMOutput" where
  "exampleAddTxValueToAccount a val out =
     putOutputAccount
       ((GetOutputAccount out a)\<lparr>BalanceDelta := BalanceDelta (GetOutputAccount out a) + val\<rparr>) out"

definition exampleExtractCodeUpgradeFromArgs :: "host \<Rightarrow> error + (bytes \<times> bytes)" where
  "exampleExtractCodeUpgradeFromArgs s =
     (case Arguments (GetVMInput s) of
        code # codeMetadata # rest \<Rightarrow> Inr (code, codeMetadata)
      | _ \<Rightarrow> Inl ErrInvalidUpgradeArguments)"

definition exampleAsyncInitStateFromInput :: "ContractCallInput \<Rightarrow> host \<Rightarrow> error option \<times> host" where
  "exampleAsyncInitStateFromInput input s =
     (if CallType input = AsynchronousCall \<and> AsyncArguments input = None
      then (Some (ErrExternal ''no async arguments''), s)
      else (None, s))"

definition exampleRegisterAsyncCall :: "string \<Rightarrow> AsyncCall \<Rightarrow> host \<Rightarrow> error option \<times> host" where
  "exampleRegisterAsyncCall groupID call s =
     (if ac_GasLimit call = 0 then (Some ErrNotEnoughGas, s) else (None, s))"

definition exampleGenerateNewCallID :: "async_state \<Rightarrow> bytes \<times> async_state" where
  "exampleGenerateNewCallID a =
     (as_callID a @ uint64Bytes (as_totalCallsCounter a + 1),
      a\<lparr>as_totalCallsCounter := as_totalCallsCounter a + 1\<rparr>)"

definition exampleSetProtectedStorage ::
  "bytes \<Rightarrow> bytes \<Rightarrow> host \<Rightarrow> (32 word \<times> error option) \<times> host" where
  "exampleSetProtectedStorage key data s = ((if data = [] then 3 else 2, None), s)"

definition exampleStorageWrite ::
  "bytes \<Rightarrow> bytes \<Rightarrow> host \<Rightarrow> (StorageStatus \<times> error option) \<times> host" where
  "exampleStorageWrite key data s =
     ((StorageAdded, None),
      s\<lparr>outputContext :=
          active_update
            (\<lambda>out. let acc = GetOutputAccount out (active (storageContext s))
                   in putOutputAccount
                        (acc\<lparr>StorageUpdates := AList.update key data (StorageUpdates acc)\<rparr>) out)
            (outputContext s)\<rparr>)"

definition exampleEnv :: env where
  "exampleEnv =
     \<lparr>GetUserAccount = exampleGetUserAccount,
      NewAddress = (\<lambda>creator. Inr (creator @ [9])),
      AccountExists = (\<lambda>a. False),
      GetShardOfAddress = (\<lambda>a. 0),
      IsSmartContract = (\<lambda>a. True),
      GetBalance = (\<lambda>a. 100),
      BlockHash = (\<lambda>nonce. [7, 7]),
      ProcessBuiltInFunction = (\<lambda>input. Inr emptyVMOutput),
      IncreaseNonce = (\<lambda>a n. n + 1),
      builtInFuncContainer = (\<lambda>f. if f = BuiltInFunctionESDTTransfer then Some True else None),
      ParseESDTTransfers = (\<lambda>sender rcv f args. Inl (ErrExternal ''not an ESDT transfer'')),
      ParseData = (\<lambda>data. Inr (data, [])),
      IsRefactorContextFlagEnabled = False,
      IsRemoveNonUpdatedStorageFlagEnabled = False,
      ElrondAPICost =
        \<lparr>cost_GetBlockHash = 10, cost_CreateAsyncCall = 10, cost_SetAsyncCallback = 10,
         cost_Int64StorageStore = 10, cost_Log = 10, cost_ExecuteReadOnly = 10\<rparr>,
      BaseOperationCost = \<lparr>cost_PersistPerByte = 1, cost_DataCopyPerByte = 1, cost_GetCode = 1\<rparr>,
      AddressLen = 32,
      BalanceLen = 32,
      HashLen = 32,
      TimeLockKeyPrefix = bytesOfString ''timelock'',
      InitFunctionNameEth = ''solidity.ctor'',
      CustomStorageKey = (\<lambda>prefix key. prefix @ key),
      errorText = (\<lambda>e. ''error''),
      AddUint64 = exampleAddUint64,
      SubUint64 = exampleSubUint64,
      MulUint64 = exampleMulUint64,
      MemLoad = exampleMemLoad,
      MemStore = exampleMemStore,
      MemLoadMultiple = (\<lambda>m offset lens. Inr (map (\<lambda>len. []) lens)),
      GetSCCode = (\<lambda>s. Inr [0]),
      StartWasmerInstance = (\<lambda>code gas forDeployment s. (None, s)),
      CleanInstance = (\<lambda>s. s),
      HasFunction = (\<lambda>name s. False),
      FunctionNameChecked = (\<lambda>s. Inr (FunctionName s)),
      CallSCFunction = (\<lambda>name s. (None, s)),
      handleBreakpointIfAny = (\<lambda>err s. (Some err, s)),
      GetPointsUsed = (\<lambda>s. 0),
      ExtractCodeUpgradeFromArgs = exampleExtractCodeUpgradeFromArgs,
      CensorVMOutput = exampleCensorVMOutput,
      AddTxValueToAccount = exampleAddTxValueToAccount,
      RemoveNonUpdatedStorage = (\<lambda>out. out),
      mergeVMOutputs = exampleMergeVMOutputs,
      mergeMetering = exampleMergeMetering,
      resolveReturnCodeFromError = exampleResolveReturnCode,
      initialGasCostForExecution = (\<lambda>code. 0),
      initialGasCostForDirectDeployment = (\<lambda>input. 0),
      initialGasCostForIndirectDeployment = (\<lambda>input. 0),
      GetGasForExecution = (\<lambda>s. gasProvided (active (meteringContext s))),
      TrackGasUsedByBuiltinFunction = (\<lambda>input out newInput s. s),
      GetVmProtectedPrefix = (\<lambda>prefix. bytesOfString ''ELROND'' @ prefix),
      SetProtectedStorage = exampleSetProtectedStorage,
      storageWrite = exampleStorageWrite,
      asyncInitStateFromInput = exampleAsyncInitStateFromInput,
      asyncExecute = (\<lambda>s. (None, s)),
      asyncIsComplete = (\<lambda>s. True),
      asyncSetResults = (\<lambda>out s. s),
      asyncSave = (\<lambda>s. (None, s)),
      SetAsyncArgumentsForCall = (\<lambda>input s. input),
      CompleteChildConditional = (\<lambda>isChildComplete s. (None, s)),
      AddAsyncArgumentsToOutputTransfers = (\<lambda>a args callType out. Inr out),
      RegisterAsyncCall = exampleRegisterAsyncCall,
      generateNewCallID = exampleGenerateNewCallID,
      ReturnCodeToBytes = (\<lambda>rc. if rc = Ok then [0] else [10])\<rparr>"

text \<open>The host in the middle of a call: the contract \<open>[1]\<close> runs \<open>run\<close> for the caller
  \<open>[3]\<close> with 1000 units of gas; the linear memory holds 64 bytes.\<close>

definition exampleInput :: ContractCallInput where
  "exampleInput =
     emptyCallInput\<lparr>CallerAddr := [3], GasProvided := 1000, RecipientAddr := [1],
       Function := ''run''\<rparr>"

definition exampleHost :: host where
  "exampleHost =
     \<lparr>managedTypesContext = \<lparr>active = [], stateStack = []\<rparr>,
      blockchainContext = \<lparr>active = 0, stateStack = []\<rparr>,
      meteringContext =
        \<lparr>active = \<lparr>gasProvided = 1000, gasSpent = 0, gasTracedName = [], gasTrace = []\<rparr>,
         stateStack = []\<rparr>,
      outputContext = \<lparr>active = emptyVMOutput, stateStack = []\<rparr>,
      runtimeContext =
        \<lparr>active = \<lparr>vmInput = exampleInput, codeAddress = [1], callFunction = ''run'',
                   readOnly = False, verifyCode = False\<rparr>,
         stateStack = []\<rparr>,
      asyncContext =
        \<lparr>active = \<lparr>as_address = [1], as_callID = [5], as_callerAddr = [3],
                   as_callerCallID = [4], as_gasAccumulated = 0, as_totalCallsCounter = 0\<rparr>,
         stateStack = []\<rparr>,
      storageContext = \<lparr>active = [1], stateStack = []\<rparr>,
      memory = replicate 64 0,
      breakpointValue = BreakpointNone,
      errors = []\<rparr>"


text \<open>A nested call of the caller \<open>[1]\<close> to \<open>init\<close> of the contract \<open>[2]\<close> with a value of 5,
  which \<^verbatim>\<open>execute\<close> refuses because the call does not allow the init function; a request to
  create a contract; one ESDT transfer; the example environment with a deployment cost
  above the 1000 units of gas of the example host; and one attempt of each kind.\<close>

definition sameCtxCall :: ContractCallInput where
  "sameCtxCall = emptyCallInput\<lparr>CallerAddr := [1], CallValue := 5, GasProvided := 100,
       RecipientAddr := [2], Function := ''init''\<rparr>"

definition exampleCreateInput :: ContractCreateInput where
  "exampleCreateInput =
     \<lparr>CallerAddr = [1], Arguments = [], CallValue = 0, CallType = DirectCall, GasPrice = 0,
      GasProvided = 100, GasLocked = 0, OriginalTxHash = [], CurrentTxHash = [], PrevTxHash = [],
      ESDTTransfers = [], ReturnCallAfterError = False, AsyncArguments = None,
      ContractCode = [0, 97, 115, 109], ContractCodeMetadata = [1, 0]\<rparr>"

definition exampleESDTTransfer :: ESDTTransfer where
  "exampleESDTTransfer =
     \<lparr>ESDTTokenName = bytesOfString ''TKN-123456'', ESDTTokenNonce = 0, ESDTValue = 7,
      ESDTTokenType = 0\<rparr>"


definition exampleAttempts :: "attempt list" where
  "exampleAttempts =
     [StorageMutation [107] [118],
      OutboundTransfer [2] [1] 0 0 5 [] [] DirectCall,
      ESDTTransferAttempt [2] [1] [exampleESDTTransfer] DirectCall,
      BuiltinFunctionCall (exampleInput\<lparr>Function := BuiltInFunctionESDTTransfer\<rparr>),
      ContractCreation exampleCreateInput]"

text \<open>The example environment with a guest whose every function makes the example attempts,
  one after the other; and what a hook has returned and left: its status, the read-only
  flag, the storage updates and the values of the transfers of the output.\<close>

definition callSummary ::
  "env \<Rightarrow> 32 word \<times> host \<Rightarrow> 32 word \<times> bool \<times> (bytes \<times> bytes \<times> bytes) list \<times> int list" where
  "callSummary E r =
     (fst r, ReadOnly (snd r), storageUpdatesOf (GetVMOutput E (snd r)),
      map ot_Value (valueTransfersOf (GetVMOutput E (snd r))))"

definition scriptedEnv :: env where
  "scriptedEnv =
     exampleEnv\<lparr>CallSCFunction :=
       \<lambda>name s. (None, snd (performAll exampleEnv exampleAttempts s))\<rparr>"

text \<open>The example host with a given amount of accumulated gas in its async context, and two
  views of the output context of a host: the balance delta of every output account, and the
  call type, async data and data of every output transfer.\<close>

definition gasAccumulatedHost :: "64 word \<Rightarrow> host" where
  "gasAccumulatedHost g =
     exampleHost\<lparr>asyncContext :=
       (asyncContext exampleHost)\<lparr>active :=
          (active (asyncContext exampleHost))\<lparr>as_gasAccumulated := g\<rparr>\<rparr>\<rparr>"

definition balanceDeltas :: "host \<Rightarrow> (bytes \<times> int) list" where
  "balanceDeltas s =
     map (\<lambda>(a, acc). (a, BalanceDelta acc)) (OutputAccounts (active (outputContext s)))"

definition emittedTransfers :: "host \<Rightarrow> (bytes \<times> (CallType \<times> bytes \<times> bytes) list) list" where
  "emittedTransfers s =
     map (\<lambda>(a, acc). (a, map (\<lambda>t. (ot_CallType t, ot_AsyncData t, ot_Data t)) (OutputTransfers acc)))
       (OutputAccounts (active (outputContext s)))"

section \<open>Properties\<close>

subsection \<open>Auxiliary facts\<close>

lemma exampleEnv_sel:
  "GetUserAccount exampleEnv = exampleGetUserAccount"
  "NewAddress exampleEnv = (\<lambda>creator. Inr (creator @ [9]))"
  "AccountExists exampleEnv = (\<lambda>a. False)"
  "GetShardOfAddress exampleEnv = (\<lambda>a. 0)"
  "IsSmartContract exampleEnv = (\<lambda>a. True)"
  "GetBalance exampleEnv = (\<lambda>a. 100)"
  "BlockHash exampleEnv = (\<lambda>nonce. [7, 7])"
  "ProcessBuiltInFunction exampleEnv = (\<lambda>input. Inr emptyVMOutput)"
  "IncreaseNonce exampleEnv = (\<lambda>a n. n + 1)"
  "builtInFuncContainer exampleEnv = (\<lambda>f. if f = BuiltInFunctionESDTTransfer then Some True else None)"
  "ParseESDTTransfers exampleEnv = (\<lambda>sender rcv f args. Inl (ErrExternal ''not an ESDT transfer''))"
  "ParseData exampleEnv = (\<lambda>data. Inr (data, []))"
  "IsRefactorContextFlagEnabled exampleEnv = False"
  "IsRemoveNonUpdatedStorageFlagEnabled exampleEnv = False"
  "ElrondAPICost exampleEnv = \<lparr>cost_GetBlockHash = 10, cost_CreateAsyncCall = 10, cost_SetAsyncCallback = 10, cost_Int64StorageStore = 10, cost_Log = 10, cost_ExecuteReadOnly = 10\<rparr>"
  "BaseOperationCost exampleEnv = \<lparr>cost_PersistPerByte = 1, cost_DataCopyPerByte = 1, cost_GetCode = 1\<rparr>"
  "AddressLen exampleEnv = 32"
  "BalanceLen exampleEnv = 32"
  "HashLen exampleEnv = 32"
  "TimeLockKeyPrefix exampleEnv = bytesOfString ''timelock''"
  "InitFunctionNameEth exampleEnv = ''solidity.ctor''"
  "CustomStorageKey exampleEnv = (\<lambda>prefix key. prefix @ key)"
  "errorText exampleEnv = (\<lambda>e. ''error'')"
  "AddUint64 exampleEnv = exampleAddUint64"
  "SubUint64 exampleEnv = exampleSubUint64"
  "MulUint64 exampleEnv = exampleMulUint64"
  "MemLoad exampleEnv = exampleMemLoad"
  "MemStore exampleEnv = exampleMemStore"
  "MemLoadMultiple exampleEnv = (\<lambda>m offset lens. Inr (map (\<lambda>len. []) lens))"
  "GetSCCode exampleEnv = (\<lambda>s. Inr [0])"
  "StartWasmerInstance exampleEnv = (\<lambda>code gas forDeployment s. (None, s))"
  "CleanInstance exampleEnv = (\<lambda>s. s)"
  "HasFunction exampleEnv = (\<lambda>name s. False)"
  "FunctionNameChecked exampleEnv = (\<lambda>s. Inr (FunctionName s))"
  "CallSCFunction exampleEnv = (\<lambda>name s. (None, s))"
  "handleBreakpointIfAny exampleEnv = (\<lambda>err s. (Some err, s))"
  "GetPointsUsed exampleEnv = (\<lambda>s. 0)"
  "ExtractCodeUpgradeFromArgs exampleEnv = exampleExtractCodeUpgradeFromArgs"
  "CensorVMOutput exampleEnv = exampleCensorVMOutput"
  "AddTxValueToAccount exampleEnv = exampleAddTxValueToAccount"
  "RemoveNonUpdatedStorage exampleEnv = (\<lambda>out. out)"
  "mergeVMOutputs exampleEnv = exampleMergeVMOutputs"
  "mergeMetering exampleEnv = exampleMergeMetering"
  "resolveReturnCodeFromError exampleEnv = exampleResolveReturnCode"
  "initialGasCostForExecution exampleEnv = (\<lambda>code. 0)"
  "initialGasCostForDirectDeployment exampleEnv = (\<lambda>input. 0)"
  "initialGasCostForIndirectDeployment exampleEnv = (\<lambda>input. 0)"
  "GetGasForExecution exampleEnv = (\<lambda>s. gasProvided (active (meteringContext s)))"
  "TrackGasUsedByBuiltinFunction exampleEnv = (\<lambda>input out newInput s. s)"
  "GetVmProtectedPrefix exampleEnv = (\<lambda>prefix. bytesOfString ''ELROND'' @ prefix)"
  "SetProtectedStorage exampleEnv = exampleSetProtectedStorage"
  "storageWrite exampleEnv = exampleStorageWrite"
  "asyncInitStateFromInput exampleEnv = exampleAsyncInitStateFromInput"
  "asyncExecute exampleEnv = (\<lambda>s. (None, s))"
  "asyncIsComplete exampleEnv = (\<lambda>s. True)"
  "asyncSetResults exampleEnv = (\<lambda>out s. s)"
  "asyncSave exampleEnv = (\<lambda>s. (None, s))"
  "SetAsyncArgumentsForCall exampleEnv = (\<lambda>input s. input)"
  "CompleteChildConditional exampleEnv = (\<lambda>isChildComplete s. (None, s))"
  "AddAsyncArgumentsToOutputTransfers exampleEnv = (\<lambda>a args callType out. Inr out)"
  "RegisterAsyncCall exampleEnv = exampleRegisterAsyncCall"
  "generateNewCallID exampleEnv = exampleGenerateNewCallID"
  "ReturnCodeToBytes exampleEnv = (\<lambda>rc. if rc = Ok then [0] else [10])"
  by (simp_all add: exampleEnv_def)

lemma WithFault_None: "WithFault E None b s = (False, s)"
  by (simp add: WithFault_def)

lemma WithFault_Some:
  "WithFault E (Some e) b s = (True, if b then FailExecution E e s else s)"
  by (simp add: WithFault_def)

lemma memory_UseGasAndAddTracedGas:
  "memory (UseGasAndAddTracedGas E name gas s) = memory s"
  by (simp add: UseGasAndAddTracedGas_def addTracedGas_def UseGas_def)

lemma natBytes_0: "natBytes 0 = []"
  by (simp add: natBytes.simps)

lemma bigIntBytes_0: "bigIntBytes 0 = []"
  by (simp add: bigIntBytes_def natBytes_0)

subsection \<open>Nested synchronous calls (C1)\<close>

lemma PopSetActiveState_PushState:
  "PopSetActiveState ((PushState c)\<lparr>active := a\<rparr>) = c"
  by (simp add: PopSetActiveState_def PushState_def)

lemma PopDiscard_PushState:
  "PopDiscard ((PushState c)\<lparr>active := a\<rparr>) = c\<lparr>active := a\<rparr>"
  by (simp add: PopDiscard_def PushState_def)

text \<open>
  \<^verbatim>\<open>finishExecuteOnSameContext\<close> itself does what C1 says when it is given the error: it
  restores the output and the metering context. Given no error and the return code \<open>Ok\<close>
  it keeps the output of the child.
\<close>

lemma finishExecuteOnSameContext_failure:
  "executeErr \<noteq> None \<or> output_ReturnCode s \<noteq> Ok \<Longrightarrow>
   outputContext (finishExecuteOnSameContext E executeErr s) = PopSetActiveState (outputContext s) \<and>
   meteringContext (finishExecuteOnSameContext E executeErr s) =
     PopSetActiveState (meteringContext s)"
  by (auto simp: finishExecuteOnSameContext_def Let_def)

lemma finishExecuteOnSameContext_success:
  "output_ReturnCode s = Ok \<Longrightarrow>
   outputContext (finishExecuteOnSameContext E None s) = PopDiscard (outputContext s)"
  by (simp add: finishExecuteOnSameContext_def Let_def RestoreGas_def)

text \<open>
  \<^verbatim>\<open>ExecuteOnDestContext\<close> on the same failing call restores the output and the metering
  context of the parent.
\<close>

lemma executeOnDestContext_failure_restores_output:
  "snd (snd (fst (ExecuteOnDestContext exampleEnv sameCtxCall exampleHost))) =
     Some ErrInitFuncCalledInRun \<and>
   outputContext (snd (ExecuteOnDestContext exampleEnv sameCtxCall exampleHost)) =
     outputContext exampleHost \<and>
   meteringContext (snd (ExecuteOnDestContext exampleEnv sameCtxCall exampleHost)) =
     meteringContext exampleHost"
  by code_simp

text \<open>
  When the async context rejects the input, \<^verbatim>\<open>executeOnDestContextNoBuiltinFunction\<close>
  returns before its \<^verbatim>\<open>defer\<close> statement: the frame pushed on the output context stays on
  its stack.
\<close>

lemma executeOnDestContext_asyncInit_failure_keeps_frame:
  "snd (snd (fst (ExecuteOnDestContext exampleEnv (sameCtxCall\<lparr>CallType := AsynchronousCall\<rparr>)
                    exampleHost))) = Some (ErrExternal ''no async arguments'') \<and>
   length (stateStack (outputContext exampleHost)) = 0 \<and>
   length (stateStack (outputContext
      (snd (ExecuteOnDestContext exampleEnv (sameCtxCall\<lparr>CallType := AsynchronousCall\<rparr>)
              exampleHost)))) = 1"
  by code_simp

text \<open>
  Claim C1 on \<^verbatim>\<open>ExecuteOnSameContext\<close>, for a child that fails with an error while the
  return code is still \<open>Ok\<close>: the call of \<open>init\<close> with a value of 5 returns
  \<open>ErrInitFuncCalledInRun\<close>, and the output context of the parent, which had no account
  before the call, holds the transfer of the child after it. The deferred
  \<^verbatim>\<open>finishExecuteOnSameContext(err)\<close> received the nil that \<^verbatim>\<open>err\<close> held at the \<^verbatim>\<open>defer\<close>
  statement.
\<close>

theorem executeOnSameContext_failure_keeps_child_output:
  "fst (ExecuteOnSameContext exampleEnv sameCtxCall exampleHost) = Some ErrInitFuncCalledInRun \<and>
   balanceDeltas exampleHost = [] \<and>
   balanceDeltas (snd (ExecuteOnSameContext exampleEnv sameCtxCall exampleHost)) =
     [([1], - 5), ([2], 5)]"
  by code_simp

subsection \<open>Read-only mode (C3)\<close>
















text \<open>Outside read-only mode the example attempts do leave a storage update and a transfer
  of value in the output, so the guards are what keeps them out.\<close>

lemma exampleAttempts_not_readOnly:
  "storageUpdatesOf (GetVMOutput exampleEnv (snd (performAll exampleEnv exampleAttempts exampleHost))) =
     [([1], [107], [118])] \<and>
   map ot_Value
     (valueTransfersOf (GetVMOutput exampleEnv (snd (performAll exampleEnv exampleAttempts exampleHost)))) =
     [5]"
  by code_simp

text \<open>
  The same through the hook: \<^verbatim>\<open>executeReadOnly\<close> of a guest that makes the example attempts
  returns 0 and leaves the flag off, and the output has no storage update and no transfer of
  value.
\<close>

lemma executeReadOnly_scripted_guest:
  "callSummary scriptedEnv
     (ExecuteReadOnlyWithTypedArguments scriptedEnv 100 (bytesOfString ''run'') [2] [] exampleHost) =
     (0, False, [], [])"
  by code_simp



subsection \<open>Upgrade permission\<close>

lemma checkUpgradePermission_cases:
  "checkUpgradePermission E input =
     (case GetUserAccount E (RecipientAddr input) of
        Inl err \<Rightarrow> Some err
      | Inr None \<Rightarrow> Some ErrNilContract
      | Inr (Some contract) \<Rightarrow>
          if Upgradeable (CodeMetadataFromBytes (GetCodeMetadata contract)) \<and>
             CallerAddr input = GetOwnerAddress contract
          then None else Some ErrUpgradeNotAllowed)"
  by (simp add: checkUpgradePermission_def Let_def split: sum.splits option.splits)

lemma upgrade_rejected:
  "checkUpgradePermission E input = Some err \<Longrightarrow>
   executeUpgrade E input s = (Some err, s) \<and>
   doRunSmartContractUpgrade E input s =
     cleanInstanceIfFailed E (CreateVMOutputInCaseOfError E err) (InitState s) \<and>
   OutputAccounts (fst (doRunSmartContractUpgrade E input s)) = []"
  by (simp add: executeUpgrade_def doRunSmartContractUpgrade_def Let_def
      cleanInstanceIfFailed_def CreateVMOutputInCaseOfError_def emptyVMOutput_def)

text \<open>
  Claim C4, as amended. When the blockchain hook returns the target account, an upgrade
  request (direct or indirect) is rejected with \<open>ErrUpgradeNotAllowed\<close> unless the code
  metadata of the account has the upgradeable bit and the caller is its owner, in which case
  the permission check passes. When the hook returns no account the request is rejected with
  \<open>ErrNilContract\<close>, and when the hook fails with the error of the hook. A rejected
  indirect upgrade leaves the host as it was; a rejected direct upgrade returns the error
  output, which has no output account, so no code is deployed.
\<close>

theorem upgrade_permission:
  "(GetUserAccount E (RecipientAddr input) = Inr (Some contract) \<and>
    \<not> (Upgradeable (CodeMetadataFromBytes (GetCodeMetadata contract)) \<and>
       CallerAddr input = GetOwnerAddress contract) \<longrightarrow>
      executeUpgrade E input s = (Some ErrUpgradeNotAllowed, s) \<and>
      doRunSmartContractUpgrade E input s =
        cleanInstanceIfFailed E (CreateVMOutputInCaseOfError E ErrUpgradeNotAllowed) (InitState s) \<and>
      OutputAccounts (fst (doRunSmartContractUpgrade E input s)) = []) \<and>
   (GetUserAccount E (RecipientAddr input) = Inr (Some contract) \<and>
    Upgradeable (CodeMetadataFromBytes (GetCodeMetadata contract)) \<and>
    CallerAddr input = GetOwnerAddress contract \<longrightarrow>
      checkUpgradePermission E input = None) \<and>
   (GetUserAccount E (RecipientAddr input) = Inr None \<longrightarrow>
      executeUpgrade E input s = (Some ErrNilContract, s) \<and>
      doRunSmartContractUpgrade E input s =
        cleanInstanceIfFailed E (CreateVMOutputInCaseOfError E ErrNilContract) (InitState s) \<and>
      OutputAccounts (fst (doRunSmartContractUpgrade E input s)) = []) \<and>
   (GetUserAccount E (RecipientAddr input) = Inl err \<longrightarrow>
      executeUpgrade E input s = (Some err, s) \<and>
      doRunSmartContractUpgrade E input s =
        cleanInstanceIfFailed E (CreateVMOutputInCaseOfError E err) (InitState s) \<and>
      OutputAccounts (fst (doRunSmartContractUpgrade E input s)) = [])"
proof -
  have rejected: "checkUpgradePermission E input = Some e \<Longrightarrow>
      executeUpgrade E input s = (Some e, s) \<and>
      doRunSmartContractUpgrade E input s =
        cleanInstanceIfFailed E (CreateVMOutputInCaseOfError E e) (InitState s) \<and>
      OutputAccounts (fst (doRunSmartContractUpgrade E input s)) = []" for e
    by (rule upgrade_rejected)
  have notAllowed:
    "GetUserAccount E (RecipientAddr input) = Inr (Some contract) \<and>
     \<not> (Upgradeable (CodeMetadataFromBytes (GetCodeMetadata contract)) \<and>
        CallerAddr input = GetOwnerAddress contract) \<longrightarrow>
      executeUpgrade E input s = (Some ErrUpgradeNotAllowed, s) \<and>
      doRunSmartContractUpgrade E input s =
        cleanInstanceIfFailed E (CreateVMOutputInCaseOfError E ErrUpgradeNotAllowed) (InitState s) \<and>
      OutputAccounts (fst (doRunSmartContractUpgrade E input s)) = []"
    by (rule impI, rule rejected) (simp add: checkUpgradePermission_cases)
  have allowed:
    "GetUserAccount E (RecipientAddr input) = Inr (Some contract) \<and>
     Upgradeable (CodeMetadataFromBytes (GetCodeMetadata contract)) \<and>
     CallerAddr input = GetOwnerAddress contract \<longrightarrow>
      checkUpgradePermission E input = None"
    by (simp add: checkUpgradePermission_cases)
  have nilContract:
    "GetUserAccount E (RecipientAddr input) = Inr None \<longrightarrow>
      executeUpgrade E input s = (Some ErrNilContract, s) \<and>
      doRunSmartContractUpgrade E input s =
        cleanInstanceIfFailed E (CreateVMOutputInCaseOfError E ErrNilContract) (InitState s) \<and>
      OutputAccounts (fst (doRunSmartContractUpgrade E input s)) = []"
    by (rule impI, rule rejected) (simp add: checkUpgradePermission_cases)
  have lookupFailed:
    "GetUserAccount E (RecipientAddr input) = Inl err \<longrightarrow>
      executeUpgrade E input s = (Some err, s) \<and>
      doRunSmartContractUpgrade E input s =
        cleanInstanceIfFailed E (CreateVMOutputInCaseOfError E err) (InitState s) \<and>
      OutputAccounts (fst (doRunSmartContractUpgrade E input s)) = []"
    by (rule impI, rule rejected) (simp add: checkUpgradePermission_cases)
  show ?thesis
    using notAllowed allowed nilContract lookupFailed by (intro conjI)
qed

lemma exampleUpgradeInput_sel:
  "RecipientAddr (exampleInput\<lparr>RecipientAddr := a, Function := f\<rparr>) = a"
  "CallerAddr (exampleInput\<lparr>RecipientAddr := a, Function := f\<rparr>) = [3]"
  by (simp_all add: exampleInput_def emptyCallInput_def)

lemma exampleAccounts:
  "GetUserAccount exampleEnv [1] = Inr (Some \<lparr>GetCodeMetadata = [0, 0], GetOwnerAddress = [3]\<rparr>)"
  "GetUserAccount exampleEnv [2] = Inr (Some \<lparr>GetCodeMetadata = [1, 0], GetOwnerAddress = [3]\<rparr>)"
  "GetUserAccount exampleEnv [8] = Inr None"
  by (simp_all add: exampleEnv_sel exampleGetUserAccount_def)

lemma exampleMetadata:
  "\<not> Upgradeable (CodeMetadataFromBytes [0, 0])"
  "Upgradeable (CodeMetadataFromBytes [1, 0])"
  by (simp_all add: CodeMetadataFromBytes_def)

text \<open>
  The hypotheses of the amended C4 on the example hook: the contract \<open>[1]\<close> is not
  upgradeable, the contract \<open>[2]\<close> is upgradeable and owned by the caller \<open>[3]\<close>, and a hook
  that fails.
\<close>

theorem upgrade_permission_witness:
  "GetUserAccount exampleEnv [1] = Inr (Some \<lparr>GetCodeMetadata = [0, 0], GetOwnerAddress = [3]\<rparr>) \<and>
   \<not> Upgradeable (CodeMetadataFromBytes [0, 0]) \<and>
   executeUpgrade exampleEnv (exampleInput\<lparr>RecipientAddr := [1], Function := UpgradeFunctionName\<rparr>)
     exampleHost = (Some ErrUpgradeNotAllowed, exampleHost) \<and>
   OutputAccounts (fst (doRunSmartContractUpgrade exampleEnv
     (exampleInput\<lparr>RecipientAddr := [1], Function := UpgradeFunctionName\<rparr>) exampleHost)) = [] \<and>
   GetUserAccount exampleEnv [2] = Inr (Some \<lparr>GetCodeMetadata = [1, 0], GetOwnerAddress = [3]\<rparr>) \<and>
   Upgradeable (CodeMetadataFromBytes [1, 0]) \<and>
   checkUpgradePermission exampleEnv
     (exampleInput\<lparr>RecipientAddr := [2], Function := UpgradeFunctionName\<rparr>) = None \<and>
   GetUserAccount (exampleEnv\<lparr>GetUserAccount := \<lambda>a. Inl (ErrExternal ''no such account'')\<rparr>) [1] =
     Inl (ErrExternal ''no such account'') \<and>
   executeUpgrade (exampleEnv\<lparr>GetUserAccount := \<lambda>a. Inl (ErrExternal ''no such account'')\<rparr>)
     (exampleInput\<lparr>RecipientAddr := [1], Function := UpgradeFunctionName\<rparr>) exampleHost =
     (Some (ErrExternal ''no such account''), exampleHost)"
proof -
  let ?i1 = "exampleInput\<lparr>RecipientAddr := [1], Function := UpgradeFunctionName\<rparr>"
  let ?i2 = "exampleInput\<lparr>RecipientAddr := [2], Function := UpgradeFunctionName\<rparr>"
  let ?E = "exampleEnv\<lparr>GetUserAccount := \<lambda>a. Inl (ErrExternal ''no such account'')\<rparr>"
  note u1 = upgrade_permission [of exampleEnv ?i1
      "\<lparr>GetCodeMetadata = [0, 0], GetOwnerAddress = [3]\<rparr>" exampleHost]
  note u2 = upgrade_permission [of exampleEnv ?i2
      "\<lparr>GetCodeMetadata = [1, 0], GetOwnerAddress = [3]\<rparr>" exampleHost]
  note u3 = upgrade_permission [of ?E ?i1 _ exampleHost "ErrExternal ''no such account''"]
  have r1: "executeUpgrade exampleEnv ?i1 exampleHost = (Some ErrUpgradeNotAllowed, exampleHost) \<and>
      doRunSmartContractUpgrade exampleEnv ?i1 exampleHost =
        cleanInstanceIfFailed exampleEnv
          (CreateVMOutputInCaseOfError exampleEnv ErrUpgradeNotAllowed) (InitState exampleHost) \<and>
      OutputAccounts (fst (doRunSmartContractUpgrade exampleEnv ?i1 exampleHost)) = []"
    by (rule u1 [THEN conjunct1, THEN mp])
      (simp add: exampleUpgradeInput_sel exampleAccounts exampleMetadata)
  have r2: "checkUpgradePermission exampleEnv ?i2 = None"
    by (rule u2 [THEN conjunct2, THEN conjunct1, THEN mp])
      (simp add: exampleUpgradeInput_sel exampleAccounts exampleMetadata)
  have r3: "executeUpgrade ?E ?i1 exampleHost = (Some (ErrExternal ''no such account''), exampleHost) \<and>
      doRunSmartContractUpgrade ?E ?i1 exampleHost =
        cleanInstanceIfFailed ?E
          (CreateVMOutputInCaseOfError ?E (ErrExternal ''no such account'')) (InitState exampleHost) \<and>
      OutputAccounts (fst (doRunSmartContractUpgrade ?E ?i1 exampleHost)) = []"
    by (rule u3 [THEN conjunct2, THEN conjunct2, THEN conjunct2, THEN mp]) simp
  have g: "GetUserAccount ?E [1] = Inl (ErrExternal ''no such account'')"
    by simp
  show ?thesis
    by (intro conjI exampleAccounts(1) exampleMetadata(1) r1 [THEN conjunct1]
        r1 [THEN conjunct2, THEN conjunct2] exampleAccounts(2) exampleMetadata(2) r2 g
        r3 [THEN conjunct1])
qed

text \<open>
  Claim C4 as stated fails for a target that the hook does not know: the request for
  \<open>[8]\<close> is rejected with \<open>ErrNilContract\<close>, not with \<open>ErrUpgradeNotAllowed\<close>.
\<close>

theorem upgrade_permission_counterexample:
  "GetUserAccount exampleEnv [8] = Inr None \<and>
   executeUpgrade exampleEnv (exampleInput\<lparr>RecipientAddr := [8], Function := UpgradeFunctionName\<rparr>)
     exampleHost = (Some ErrNilContract, exampleHost) \<and>
   ReturnMessage (fst (doRunSmartContractUpgrade exampleEnv
     (exampleInput\<lparr>RecipientAddr := [8], Function := UpgradeFunctionName\<rparr>) exampleHost)) =
     Error exampleEnv ErrNilContract \<and>
   ErrNilContract \<noteq> ErrUpgradeNotAllowed"
  by (simp add: exampleAccounts upgrade_rejected checkUpgradePermission_cases
      exampleUpgradeInput_sel cleanInstanceIfFailed_def CreateVMOutputInCaseOfError_def)

subsection \<open>Status values of the hooks\<close>

lemma GetBlockHash_status:
  "fst (GetBlockHash E nonce resultOffset s) =
     (if isl (MemStore E (memory s) resultOffset (BlockHash E nonce)) then 1 else 0)"
  by (simp add: GetBlockHash_def runtime_MemStore_def Let_def memory_UseGasAndAddTracedGas
      WithFault_None WithFault_Some split: sum.splits)

text \<open>The status of \<open>createAsyncCall\<close> is decided by the registration of the call that the
  hook has built, on the host that it has charged.\<close>

lemma CreateAsyncCallWithTypedArgs_status:
  "fst (CreateAsyncCallWithTypedArgs E calledSCAddress val data successFunc errorFunc gas
          extraGasForCallback callbackClosure s) =
     (let asyncCall =
            \<lparr>ac_Status = AsyncCallPending, ac_Destination = calledSCAddress, ac_Data = data,
             ac_ValueBytes = val, ac_GasLimit = gas,
             ac_SuccessCallback = stringOfBytes successFunc,
             ac_ErrorCallback = stringOfBytes errorFunc,
             ac_GasLocked = extraGasForCallback, ac_CallbackClosure = callbackClosure\<rparr>;
          s2 = UseAndTraceGas E (cost_CreateAsyncCall (ElrondAPICost E))
                 (StartGasTracing createAsyncCallName s);
          s3 = (if HasDefinedAnyCallback asyncCall
                then UseAndTraceGas E (cost_SetAsyncCallback (ElrondAPICost E)) s2 else s2)
      in if fst (RegisterAsyncCall E [] asyncCall s3) = None then 0 else 1)"
  by (simp add: CreateAsyncCallWithTypedArgs_def Let_def split_beta WithFault_def
      split: option.splits)

lemma CreateAsyncCallWithHost_load_fails:
  "isl (MemLoad E (memory s) destOffset (AddressLen E)) \<or>
   isl (MemLoad E (memory s) valueOffset (BalanceLen E)) \<or>
   isl (MemLoad E (memory s) dataOffset dataLength) \<or>
   isl (MemLoad E (memory s) successOffset successLength) \<or>
   isl (MemLoad E (memory s) errorOffset errorLength) \<Longrightarrow>
   fst (CreateAsyncCallWithHost E destOffset valueOffset dataOffset dataLength successOffset
          successLength errorOffset errorLength gas extraGasForCallback s) = 1"
  by (auto simp: CreateAsyncCallWithHost_def loadOrFault_def runtime_MemLoad_def
      split: sum.splits)

lemma CreateAsyncCallWithHost_loaded:
  "MemLoad E (memory s) destOffset (AddressLen E) = Inr calledSCAddress \<Longrightarrow>
   MemLoad E (memory s) valueOffset (BalanceLen E) = Inr val \<Longrightarrow>
   MemLoad E (memory s) dataOffset dataLength = Inr data \<Longrightarrow>
   MemLoad E (memory s) successOffset successLength = Inr successFunc \<Longrightarrow>
   MemLoad E (memory s) errorOffset errorLength = Inr errorFunc \<Longrightarrow>
   CreateAsyncCallWithHost E destOffset valueOffset dataOffset dataLength successOffset
     successLength errorOffset errorLength gas extraGasForCallback s =
   CreateAsyncCallWithTypedArgs E calledSCAddress val data successFunc errorFunc gas
     extraGasForCallback None s"
  by (simp add: CreateAsyncCallWithHost_def loadOrFault_def runtime_MemLoad_def)

lemma SetStorageLockWithHost_load_fails:
  "isl (MemLoad E (memory s) keyOffset keyLength) \<Longrightarrow>
   fst (SetStorageLockWithHost E keyOffset keyLength lockTimestamp s) = - 1"
  by (auto simp: SetStorageLockWithHost_def loadOrFault_def runtime_MemLoad_def Let_def
      memory_UseGasAndAddTracedGas split: sum.splits)

text \<open>
  Claim C6, as amended. The status that a hook returning \<open>int32\<close> reports differs by hook.
  \<open>GetBlockHash\<close> returns 1 when the store of the hash fails and 0 otherwise.
  \<open>createAsyncCall\<close> returns 1 when one of its five loads fails; when all five succeed it
  registers the call that it has built from the loaded values, and returns 1 when the
  registration is rejected and 0 when it is accepted. \<open>setStorageLock\<close> returns \<open>-1\<close> when
  the load of the key fails.
\<close>

theorem int32_hooks_status_convention:
  "fst (GetBlockHash E nonce resultOffset s) =
     (if isl (MemStore E (memory s) resultOffset (BlockHash E nonce)) then 1 else 0) \<and>
   (isl (MemLoad E (memory s) destOffset (AddressLen E)) \<or>
    isl (MemLoad E (memory s) valueOffset (BalanceLen E)) \<or>
    isl (MemLoad E (memory s) dataOffset dataLength) \<or>
    isl (MemLoad E (memory s) successOffset successLength) \<or>
    isl (MemLoad E (memory s) errorOffset errorLength) \<longrightarrow>
    fst (CreateAsyncCallWithHost E destOffset valueOffset dataOffset dataLength successOffset
           successLength errorOffset errorLength gas extraGasForCallback s) = 1) \<and>
   (MemLoad E (memory s) destOffset (AddressLen E) = Inr calledSCAddress \<and>
    MemLoad E (memory s) valueOffset (BalanceLen E) = Inr val \<and>
    MemLoad E (memory s) dataOffset dataLength = Inr data \<and>
    MemLoad E (memory s) successOffset successLength = Inr successFunc \<and>
    MemLoad E (memory s) errorOffset errorLength = Inr errorFunc \<longrightarrow>
    fst (CreateAsyncCallWithHost E destOffset valueOffset dataOffset dataLength successOffset
           successLength errorOffset errorLength gas extraGasForCallback s) =
      (let asyncCall =
             \<lparr>ac_Status = AsyncCallPending, ac_Destination = calledSCAddress, ac_Data = data,
              ac_ValueBytes = val, ac_GasLimit = gas,
              ac_SuccessCallback = stringOfBytes successFunc,
              ac_ErrorCallback = stringOfBytes errorFunc,
              ac_GasLocked = extraGasForCallback, ac_CallbackClosure = None\<rparr>;
           s2 = UseAndTraceGas E (cost_CreateAsyncCall (ElrondAPICost E))
                  (StartGasTracing createAsyncCallName s);
           s3 = (if HasDefinedAnyCallback asyncCall
                 then UseAndTraceGas E (cost_SetAsyncCallback (ElrondAPICost E)) s2 else s2)
       in if fst (RegisterAsyncCall E [] asyncCall s3) = None then 0 else 1)) \<and>
   (isl (MemLoad E (memory s) keyOffset keyLength) \<longrightarrow>
    fst (SetStorageLockWithHost E keyOffset keyLength lockTimestamp s) = - 1)"
proof -
  have blockHash: "fst (GetBlockHash E nonce resultOffset s) =
     (if isl (MemStore E (memory s) resultOffset (BlockHash E nonce)) then 1 else 0)"
    by (rule GetBlockHash_status)
  have loadFails: "isl (MemLoad E (memory s) destOffset (AddressLen E)) \<or>
    isl (MemLoad E (memory s) valueOffset (BalanceLen E)) \<or>
    isl (MemLoad E (memory s) dataOffset dataLength) \<or>
    isl (MemLoad E (memory s) successOffset successLength) \<or>
    isl (MemLoad E (memory s) errorOffset errorLength) \<longrightarrow>
    fst (CreateAsyncCallWithHost E destOffset valueOffset dataOffset dataLength successOffset
           successLength errorOffset errorLength gas extraGasForCallback s) = 1"
    by (rule impI) (rule CreateAsyncCallWithHost_load_fails)
  have loaded: "MemLoad E (memory s) destOffset (AddressLen E) = Inr calledSCAddress \<and>
    MemLoad E (memory s) valueOffset (BalanceLen E) = Inr val \<and>
    MemLoad E (memory s) dataOffset dataLength = Inr data \<and>
    MemLoad E (memory s) successOffset successLength = Inr successFunc \<and>
    MemLoad E (memory s) errorOffset errorLength = Inr errorFunc \<longrightarrow>
    fst (CreateAsyncCallWithHost E destOffset valueOffset dataOffset dataLength successOffset
           successLength errorOffset errorLength gas extraGasForCallback s) =
      (let asyncCall =
             \<lparr>ac_Status = AsyncCallPending, ac_Destination = calledSCAddress, ac_Data = data,
              ac_ValueBytes = val, ac_GasLimit = gas,
              ac_SuccessCallback = stringOfBytes successFunc,
              ac_ErrorCallback = stringOfBytes errorFunc,
              ac_GasLocked = extraGasForCallback, ac_CallbackClosure = None\<rparr>;
           s2 = UseAndTraceGas E (cost_CreateAsyncCall (ElrondAPICost E))
                  (StartGasTracing createAsyncCallName s);
           s3 = (if HasDefinedAnyCallback asyncCall
                 then UseAndTraceGas E (cost_SetAsyncCallback (ElrondAPICost E)) s2 else s2)
       in if fst (RegisterAsyncCall E [] asyncCall s3) = None then 0 else 1)"
  proof (rule impI)
    assume l: "MemLoad E (memory s) destOffset (AddressLen E) = Inr calledSCAddress \<and>
      MemLoad E (memory s) valueOffset (BalanceLen E) = Inr val \<and>
      MemLoad E (memory s) dataOffset dataLength = Inr data \<and>
      MemLoad E (memory s) successOffset successLength = Inr successFunc \<and>
      MemLoad E (memory s) errorOffset errorLength = Inr errorFunc"
    have "CreateAsyncCallWithHost E destOffset valueOffset dataOffset dataLength successOffset
        successLength errorOffset errorLength gas extraGasForCallback s =
      CreateAsyncCallWithTypedArgs E calledSCAddress val data successFunc errorFunc gas
        extraGasForCallback None s"
      using l by (intro CreateAsyncCallWithHost_loaded) simp_all
    then show "fst (CreateAsyncCallWithHost E destOffset valueOffset dataOffset dataLength
        successOffset successLength errorOffset errorLength gas extraGasForCallback s) =
      (let asyncCall =
             \<lparr>ac_Status = AsyncCallPending, ac_Destination = calledSCAddress, ac_Data = data,
              ac_ValueBytes = val, ac_GasLimit = gas,
              ac_SuccessCallback = stringOfBytes successFunc,
              ac_ErrorCallback = stringOfBytes errorFunc,
              ac_GasLocked = extraGasForCallback, ac_CallbackClosure = None\<rparr>;
           s2 = UseAndTraceGas E (cost_CreateAsyncCall (ElrondAPICost E))
                  (StartGasTracing createAsyncCallName s);
           s3 = (if HasDefinedAnyCallback asyncCall
                 then UseAndTraceGas E (cost_SetAsyncCallback (ElrondAPICost E)) s2 else s2)
       in if fst (RegisterAsyncCall E [] asyncCall s3) = None then 0 else 1)"
      by (simp only: CreateAsyncCallWithTypedArgs_status)
  qed
  have lock: "isl (MemLoad E (memory s) keyOffset keyLength) \<longrightarrow>
    fst (SetStorageLockWithHost E keyOffset keyLength lockTimestamp s) = - 1"
    by (rule impI) (rule SetStorageLockWithHost_load_fails)
  show ?thesis
    by (intro conjI blockHash loadFails loaded lock)
qed

lemma example_load_fails: "isl (exampleMemLoad (memory exampleHost) 100 n)"
  by (simp add: exampleMemLoad_def exampleHost_def)

lemma example_load_ok: "\<not> isl (exampleMemLoad (memory exampleHost) 0 32)"
  by (simp add: exampleMemLoad_def exampleHost_def)

lemma example_store_fails: "isl (exampleMemStore (memory exampleHost) 100 [7, 7])"
  by (simp add: exampleMemStore_def exampleHost_def)

lemma example_store_ok: "\<not> isl (exampleMemStore (memory exampleHost) 0 [7, 7])"
  by (simp add: exampleMemStore_def exampleHost_def)

lemma example_load_zeros:
  "exampleMemLoad (memory exampleHost) 0 32 = Inr (replicate 32 0)"
  by (simp add: exampleMemLoad_def exampleHost_def)

text \<open>
  The hypotheses of the amended C6 on the example host: a load at offset 100 is out of
  bounds and the hooks return 1 and \<open>-1\<close>; loads of 32 bytes at offset 0 are in bounds, and
  the example async context accepts a call with a gas limit of 5 (status 0) and rejects a
  call with a gas limit of 0 (status 1).
\<close>

theorem int32_hooks_status_convention_witness:
  "isl (MemLoad exampleEnv (memory exampleHost) 100 (AddressLen exampleEnv)) \<and>
   fst (CreateAsyncCallWithHost exampleEnv 100 0 0 32 0 32 0 32 5 0 exampleHost) = 1 \<and>
   isl (MemLoad exampleEnv (memory exampleHost) 100 2) \<and>
   fst (SetStorageLockWithHost exampleEnv 100 2 0 exampleHost) = - 1 \<and>
   MemLoad exampleEnv (memory exampleHost) 0 32 = Inr (replicate 32 0) \<and>
   fst (CreateAsyncCallWithHost exampleEnv 0 0 0 32 0 32 0 32 5 0 exampleHost) = 0 \<and>
   fst (CreateAsyncCallWithHost exampleEnv 0 0 0 32 0 32 0 32 0 0 exampleHost) = 1"
proof -
  have a: "isl (MemLoad exampleEnv (memory exampleHost) 100 (AddressLen exampleEnv))"
    by (simp add: exampleEnv_sel example_load_fails)
  have b: "isl (MemLoad exampleEnv (memory exampleHost) 100 2)"
    by (simp add: exampleEnv_sel example_load_fails)
  have z: "MemLoad exampleEnv (memory exampleHost) 0 32 = Inr (replicate 32 0)"
    by (simp add: exampleEnv_sel example_load_zeros)
  have loads:
    "MemLoad exampleEnv (memory exampleHost) 0 (AddressLen exampleEnv) = Inr (replicate 32 0) \<and>
     MemLoad exampleEnv (memory exampleHost) 0 (BalanceLen exampleEnv) = Inr (replicate 32 0) \<and>
     MemLoad exampleEnv (memory exampleHost) 0 32 = Inr (replicate 32 0) \<and>
     MemLoad exampleEnv (memory exampleHost) 0 32 = Inr (replicate 32 0) \<and>
     MemLoad exampleEnv (memory exampleHost) 0 32 = Inr (replicate 32 0)"
    by (simp add: exampleEnv_sel example_load_zeros)
  note i1 = int32_hooks_status_convention
    [of exampleEnv 0 0 exampleHost 100 0 0 32 0 32 0 32 5 0 _ _ _ _ _ 100 2 0]
  note i2 = int32_hooks_status_convention
    [of exampleEnv 0 0 exampleHost 0 0 0 32 0 32 0 32 5 0 "replicate 32 0" "replicate 32 0"
        "replicate 32 0" "replicate 32 0" "replicate 32 0" 0 2 0]
  note i3 = int32_hooks_status_convention
    [of exampleEnv 0 0 exampleHost 0 0 0 32 0 32 0 32 0 0 "replicate 32 0" "replicate 32 0"
        "replicate 32 0" "replicate 32 0" "replicate 32 0" 0 2 0]
  have r1: "fst (CreateAsyncCallWithHost exampleEnv 100 0 0 32 0 32 0 32 5 0 exampleHost) = 1"
    by (rule i1 [THEN conjunct2, THEN conjunct1, THEN mp]) (simp add: a)
  have r2: "fst (SetStorageLockWithHost exampleEnv 100 2 0 exampleHost) = - 1"
    by (rule i1 [THEN conjunct2, THEN conjunct2, THEN conjunct2, THEN mp]) (rule b)
  have r3: "fst (CreateAsyncCallWithHost exampleEnv 0 0 0 32 0 32 0 32 5 0 exampleHost) = 0"
    using i2 [THEN conjunct2, THEN conjunct2, THEN conjunct1, THEN mp, OF loads]
    by (simp add: Let_def exampleEnv_sel exampleRegisterAsyncCall_def)
  have r4: "fst (CreateAsyncCallWithHost exampleEnv 0 0 0 32 0 32 0 32 0 0 exampleHost) = 1"
    using i3 [THEN conjunct2, THEN conjunct2, THEN conjunct1, THEN mp, OF loads]
    by (simp add: Let_def exampleEnv_sel exampleRegisterAsyncCall_def)
  show ?thesis
    by (intro conjI a r1 b r2 z r3 r4)
qed

text \<open>
  Claim C6 as stated fails for \<open>GetBlockHash\<close>: with a result offset out of bounds the hook
  returns 1, not \<open>-1\<close>; with a result offset in bounds it returns 0, not 1.
\<close>

theorem int32_hooks_status_convention_counterexample:
  "isl (MemStore exampleEnv (memory exampleHost) 100 (BlockHash exampleEnv 0)) \<and>
   fst (GetBlockHash exampleEnv 0 100 exampleHost) = 1 \<and>
   fst (GetBlockHash exampleEnv 0 100 exampleHost) \<noteq> - 1 \<and>
   \<not> isl (MemStore exampleEnv (memory exampleHost) 0 (BlockHash exampleEnv 0)) \<and>
   fst (GetBlockHash exampleEnv 0 0 exampleHost) = 0 \<and>
   fst (GetBlockHash exampleEnv 0 0 exampleHost) \<noteq> 1"
  by (simp add: GetBlockHash_status exampleEnv_sel example_store_fails example_store_ok)

subsection \<open>The data of a cross-shard callback (C7)\<close>

lemma fold_Bytes_eq:
  "fold Bytes xs b = b\<lparr>tdb_elements := tdb_elements b @ map hexEncode xs\<rparr>"
  by (induction xs arbitrary: b) (simp_all add: Bytes_def)

text \<open>
  The two builders of \<^verbatim>\<open>createDataForCrossShardCallback\<close>: the async data holds the new
  call id, the current call id, the caller's call id and the bytes of
  \<^verbatim>\<open>big.NewInt(int64(gasAccumulated))\<close>; the transfer data holds the return code and then
  the return data when the code is \<open>Ok\<close>, the return message otherwise.
\<close>

lemma createDataForCrossShardCallback_elements:
  "generateNewCallID E a = (newCallID, a1) \<Longrightarrow>
   createDataForCrossShardCallback E returnCode returnData returnMessage a =
     ((ToBytes \<lparr>tdb_function = [],
                tdb_elements = [hexEncode newCallID, hexEncode (as_callID a1),
                                hexEncode (as_callerCallID a1),
                                hexEncode (bigIntBytes (sint (as_gasAccumulated a1)))]\<rparr>,
       ToBytes \<lparr>tdb_function = callbackNamePlaceholder,
                tdb_elements =
                  hexEncode (ReturnCodeToBytes E returnCode) #
                  (if returnCode = Ok then map hexEncode returnData
                   else [hexEncode (bytesOfString returnMessage)])\<rparr>),
      a1)"
  by (simp add: createDataForCrossShardCallback_def Let_def NewBuilder_def Bytes_def Func_def
      Str_def fold_Bytes_eq)

text \<open>Below \<open>2\<^sup>6\<^sup>3\<close> the conversion to \<^verbatim>\<open>int64\<close> keeps the accumulated gas.\<close>

lemma bigIntBytes_sint_small:
  "unat (g :: 64 word) < 2 ^ 63 \<Longrightarrow> bigIntBytes (sint g) = uint64Bytes g"
proof -
  assume small: "unat g < 2 ^ 63"
  have "uint g = int (unat g)"
    by simp
  also from small have "\<dots> < int (2 ^ 63)"
    by (rule iffD2 [OF of_nat_less_iff])
  finally have "uint g < 2 ^ 63"
    by simp
  then have "signed_take_bit 63 (uint g) = uint g"
    by (intro signed_take_bit_int_eq_self) (simp_all add: order_trans [of _ 0])
  then have "sint g = uint g"
    by (simp add: sint_uint)
  then show ?thesis
    by (simp add: bigIntBytes_def uint64Bytes_def)
qed

lemma crossShardCallback_transfer_max:
  "emittedTransfers (snd (SendCrossShardCallback exampleEnv Ok [[7]] []
      (gasAccumulatedHost 18446744073709551615))) =
     [([1], []),
      ([3], [(AsynchronousCallBack, bytesOfString ''@0501@05@04@01'',
              bytesOfString ''<callback>@00@07'')])]"
  by code_simp

lemma crossShardCallback_transfer_one:
  "emittedTransfers (snd (SendCrossShardCallback exampleEnv Ok [[7]] [] (gasAccumulatedHost 1))) =
     [([1], []),
      ([3], [(AsynchronousCallBack, bytesOfString ''@0501@05@04@01'',
              bytesOfString ''<callback>@00@07'')])]"
  by code_simp

lemma uint64Bytes_max:
  "uint64Bytes 18446744073709551615 = [255, 255, 255, 255, 255, 255, 255, 255]"
  by (simp add: uint64Bytes_def natBytes.simps)

lemma bigIntBytes_sint_max:
  "bigIntBytes (sint (18446744073709551615 :: 64 word)) = [1]"
  by code_simp

text \<open>
  Claim C7 at an accumulated gas of \<open>2\<^sup>6\<^sup>4 - 1\<close>. The callback transfer is tagged
  \<open>AsynchronousCallBack\<close> and its data is \<open>(returnCode, returnData)\<close>, but the fourth element
  of the async data is \<open>01\<close>: the transfer is the one that an accumulated gas of 1 produces.
  \<^verbatim>\<open>int64(gasAccumulated)\<close> is \<open>-1\<close> and \<^verbatim>\<open>Bytes()\<close> gives the bytes of the absolute value,
  where the eight bytes \<open>ff\<close> of \<^verbatim>\<open>SetUint64\<close> would encode the accumulated gas.
\<close>

theorem crossShardCallback_gasAccumulated_int64:
  "emittedTransfers (snd (SendCrossShardCallback exampleEnv Ok [[7]] []
      (gasAccumulatedHost 18446744073709551615))) =
     [([1], []),
      ([3], [(AsynchronousCallBack, bytesOfString ''@0501@05@04@01'',
              bytesOfString ''<callback>@00@07'')])] \<and>
   emittedTransfers (snd (SendCrossShardCallback exampleEnv Ok [[7]] [] (gasAccumulatedHost 1))) =
     emittedTransfers (snd (SendCrossShardCallback exampleEnv Ok [[7]] []
       (gasAccumulatedHost 18446744073709551615))) \<and>
   bigIntBytes (sint (18446744073709551615 :: 64 word)) = [1] \<and>
   uint64Bytes 18446744073709551615 = [255, 255, 255, 255, 255, 255, 255, 255]"
proof -
  have same:
    "emittedTransfers (snd (SendCrossShardCallback exampleEnv Ok [[7]] [] (gasAccumulatedHost 1))) =
     emittedTransfers (snd (SendCrossShardCallback exampleEnv Ok [[7]] []
       (gasAccumulatedHost 18446744073709551615)))"
    by (simp only: crossShardCallback_transfer_max crossShardCallback_transfer_one)
  show ?thesis
    by (intro conjI crossShardCallback_transfer_max same bigIntBytes_sint_max uint64Bytes_max)
qed

subsection \<open>\<^verbatim>\<open>writeLog\<close> with a negative length\<close>

lemma outputContext_UseGasAndAddTracedGas:
  "outputContext (UseGasAndAddTracedGas E name gas s) = outputContext s"
  "errors (UseGasAndAddTracedGas E name gas s) = errors s"
  "breakpointValue (UseGasAndAddTracedGas E name gas s) = breakpointValue s"
  by (simp_all add: UseGasAndAddTracedGas_def addTracedGas_def UseGas_def)

text \<open>With a negative \<open>numTopics\<close> or \<open>dataLength\<close> the hook charges its gas and stops at the
  fault check, before it loads anything and before it calls \<^verbatim>\<open>output.WriteLog\<close>.\<close>

lemma WriteLog_negative:
  "sint numTopics < 0 \<or> sint dataLength < 0 \<Longrightarrow>
   WriteLog E dataPointer dataLength topicPtr numTopics s =
     FailExecution E ErrNegativeLength
       (UseGasAndAddTracedGas E writeLogName
          (AddUint64 E (cost_Log (ElrondAPICost E))
             (MulUint64 E (cost_PersistPerByte (BaseOperationCost E))
                (scast (numTopics * HashLen E + dataLength)))) s)"
  by (simp add: WriteLog_def Let_def WithFault_Some ElrondAPIErrorShouldFailExecution_def)

text \<open>
  Claim C8. When \<open>writeLog\<close> is called with a negative \<open>dataLength\<close> or a negative
  \<open>numTopics\<close>, the execution fails: the return code is \<open>ExecutionFailed\<close>, the message is
  "negative length", the \<open>ExecutionFailed\<close> breakpoint is raised and the error is recorded;
  and no log entry is recorded.
\<close>

theorem writeLog_negative_length:
  assumes "sint numTopics < 0 \<or> sint dataLength < 0"
  shows
    "ReturnCode (active (outputContext (WriteLog E dataPointer dataLength topicPtr numTopics s))) =
       ExecutionFailed \<and>
     ReturnMessage (active (outputContext (WriteLog E dataPointer dataLength topicPtr numTopics s))) =
       ''negative length'' \<and>
     Logs (active (outputContext (WriteLog E dataPointer dataLength topicPtr numTopics s))) =
       Logs (active (outputContext s)) \<and>
     breakpointValue (WriteLog E dataPointer dataLength topicPtr numTopics s) =
       BreakpointExecutionFailed \<and>
     errors (WriteLog E dataPointer dataLength topicPtr numTopics s) =
       errors s @ [(ErrNegativeLength, [])]"
  using assms
  by (simp add: WriteLog_negative Let_def FailExecution_def AddError_def Error_def
      outputContext_UseGasAndAddTracedGas)

text \<open>
  The hypothesis of C8 holds for \<open>dataLength = -1\<close> and for \<open>numTopics = -1\<close>; on the example
  host, which has no log entry, the execution fails and there is still none.
\<close>

theorem writeLog_negative_length_witness:
  "(sint (0 :: 32 word) < 0 \<or> sint (- 1 :: 32 word) < 0) \<and>
   ReturnCode (active (outputContext (WriteLog exampleEnv 0 (- 1) 0 0 exampleHost))) =
     ExecutionFailed \<and>
   ReturnMessage (active (outputContext (WriteLog exampleEnv 0 (- 1) 0 0 exampleHost))) =
     ''negative length'' \<and>
   Logs (active (outputContext (WriteLog exampleEnv 0 (- 1) 0 0 exampleHost))) = [] \<and>
   (sint (- 1 :: 32 word) < 0 \<or> sint (4 :: 32 word) < 0) \<and>
   ReturnCode (active (outputContext (WriteLog exampleEnv 0 4 0 (- 1) exampleHost))) =
     ExecutionFailed \<and>
   Logs (active (outputContext (WriteLog exampleEnv 0 4 0 (- 1) exampleHost))) = []"
proof -
  have neg1: "sint (0 :: 32 word) < 0 \<or> sint (- 1 :: 32 word) < 0"
    by simp
  have neg2: "sint (- 1 :: 32 word) < 0 \<or> sint (4 :: 32 word) < 0"
    by simp
  have logs: "Logs (active (outputContext exampleHost)) = []"
    by (simp add: exampleHost_def emptyVMOutput_def)
  note w1 = writeLog_negative_length [OF neg1, of exampleEnv 0 0 exampleHost]
  note w2 = writeLog_negative_length [OF neg2, of exampleEnv 0 0 exampleHost]
  have l1: "Logs (active (outputContext (WriteLog exampleEnv 0 (- 1) 0 0 exampleHost))) = []"
    using w1 [THEN conjunct2, THEN conjunct2, THEN conjunct1] logs by (rule trans)
  have l2: "Logs (active (outputContext (WriteLog exampleEnv 0 4 0 (- 1) exampleHost))) = []"
    using w2 [THEN conjunct2, THEN conjunct2, THEN conjunct1] logs by (rule trans)
  show ?thesis
    by (intro conjI neg1 neg2 l1 l2 w1 [THEN conjunct1] w1 [THEN conjunct2, THEN conjunct1]
        w2 [THEN conjunct1])
qed

subsection \<open>The read-only flag across \<^verbatim>\<open>executeReadOnly\<close>\<close>

lemma ReadOnly_FailExecution: "ReadOnly (FailExecution E e s) = ReadOnly s"
  by (simp add: ReadOnly_def FailExecution_def AddError_def)

lemma ReadOnly_WithFault: "ReadOnly (snd (WithFault E err b s)) = ReadOnly s"
  by (cases err) (simp_all add: WithFault_def ReadOnly_FailExecution)

lemma ReadOnly_SetReadOnly: "ReadOnly (SetReadOnly b s) = b"
  by (simp add: ReadOnly_def SetReadOnly_def)

lemma ReadOnly_UseAndTraceGas: "ReadOnly (UseAndTraceGas E g s) = ReadOnly s"
  by (simp add: ReadOnly_def UseAndTraceGas_def addTracedGas_def UseGas_def)

lemma ReadOnly_StartGasTracing: "ReadOnly (StartGasTracing n s) = ReadOnly s"
  by (simp add: ReadOnly_def StartGasTracing_def)

lemma ReadOnly_ExecuteReadOnlyWithTypedArguments:
  "ReadOnly (snd (ExecuteReadOnlyWithTypedArguments E gasLimit function dest args s)) = ReadOnly s"
  by (simp add: ExecuteReadOnlyWithTypedArguments_def Let_def split_beta
      ReadOnly_WithFault ReadOnly_SetReadOnly ReadOnly_UseAndTraceGas
      split: sum.splits)

lemma ReadOnly_extract:
  "ReadOnly (snd (extractIndirectContractCallArgumentsWithoutValue E a b c d e f s)) = ReadOnly s"
  by (simp add: extractIndirectContractCallArgumentsWithoutValue_def
     extractIndirectContractCallArguments_def Let_def ReadOnly_UseAndTraceGas
     split: sum.splits prod.splits)

text \<open>
  Claim C9. After \<open>executeReadOnly\<close> returns, the read-only flag of the runtime has the
  value it had before the call, whatever the inner call did and whether it succeeded or
  failed: the hook saves the flag, sets it for the inner call and writes the saved value
  back; the returns before the inner call do not touch the flag. In particular a caller
  that is read-only stays read-only. The statement covers the hook on typed arguments and
  the hook that reads its arguments from memory.
\<close>

theorem executeReadOnly_restores_readOnly:
  "ReadOnly (snd (ExecuteReadOnlyWithTypedArguments E gasLimit function dest args s)) = ReadOnly s \<and>
   ReadOnly (snd (ExecuteReadOnly E gasLimit addressOffset functionOffset functionLength
                    numArguments argumentsLengthOffset dataOffset s)) = ReadOnly s"
proof -
  let ?s0 = "StartGasTracing executeReadOnlyName s"
  obtain r s1 where ex:
    "extractIndirectContractCallArgumentsWithoutValue E addressOffset functionOffset functionLength
       numArguments argumentsLengthOffset dataOffset ?s0 = (r, s1)"
    by (cases "extractIndirectContractCallArgumentsWithoutValue E addressOffset functionOffset
         functionLength numArguments argumentsLengthOffset dataOffset ?s0")
  have "ReadOnly s1 = ReadOnly s"
    using ReadOnly_extract [of E addressOffset functionOffset functionLength numArguments
        argumentsLengthOffset dataOffset ?s0] ex
    by (simp add: ReadOnly_StartGasTracing)
  then have "ReadOnly (snd (ExecuteReadOnly E gasLimit addressOffset functionOffset functionLength
                    numArguments argumentsLengthOffset dataOffset s)) = ReadOnly s"
    using ex
    by (cases r) (simp_all add: ExecuteReadOnly_def ExecuteReadOnlyWithHost_def
        ReadOnly_ExecuteReadOnlyWithTypedArguments ReadOnly_WithFault)
  then show ?thesis
    by (simp add: ReadOnly_ExecuteReadOnlyWithTypedArguments)
qed

subsection \<open>Storage locks\<close>

text \<open>
  Claim C10. For every key, \<open>clearStorageLock\<close> is \<open>setStorageLock\<close> with the timestamp 0:
  the two hooks return the same status and leave the same host. When the key can be read
  from memory, that is one charge of \<open>Int64StorageStore\<close> traced under \<open>setStorageLock\<close>,
  followed by one protected store of the empty byte string (the bytes of the timestamp 0)
  under the time-lock key derived from the key, whose storage status is returned
  (\<open>-1\<close> if the store fails).
\<close>

theorem clearStorageLock_is_setStorageLock_zero:
  "ClearStorageLock E keyOffset keyLength s = SetStorageLock E keyOffset keyLength 0 s \<and>
   (MemLoad E (memory s) keyOffset keyLength = Inr key \<longrightarrow>
      ClearStorageLock E keyOffset keyLength s =
        (let s1 = UseGasAndAddTracedGas E setStorageLockName
                    (cost_Int64StorageStore (ElrondAPICost E)) s;
             ((storageStatus, err), s2) =
               SetProtectedStorage E
                 (CustomStorageKey E (GetVmProtectedPrefix E (TimeLockKeyPrefix E)) key) [] s1
         in case err of
              None \<Rightarrow> (storageStatus, s2)
            | Some e \<Rightarrow> (- 1, snd (WithFault E (Some e) (ElrondAPIErrorShouldFailExecution E) s2))))"
  by (auto simp: ClearStorageLock_def SetStorageLock_def SetStorageLockWithHost_def
      SetStorageLockWithTypedArgs_def loadOrFault_def runtime_MemLoad_def Let_def
      WithFault_None WithFault_Some memory_UseGasAndAddTracedGas bigIntBytes_0
      split: prod.splits option.splits)

text \<open>
  The hypothesis of C10 holds for the two-byte key at offset 0 of the example memory; the
  hook returns the status of the store and the host after the charge.
\<close>

theorem clearStorageLock_is_setStorageLock_zero_witness:
  "MemLoad exampleEnv (memory exampleHost) 0 2 = Inr [0, 0] \<and>
   ClearStorageLock exampleEnv 0 2 exampleHost =
     (3, UseGasAndAddTracedGas exampleEnv setStorageLockName 10 exampleHost)"
proof -
  have key: "MemLoad exampleEnv (memory exampleHost) 0 2 = Inr [0, 0]"
    by (simp add: exampleEnv_sel exampleHost_def exampleMemLoad_def eval_nat_numeral)
  note inst = clearStorageLock_is_setStorageLock_zero [of exampleEnv 0 2 exampleHost "[0, 0]"]
  have val:
    "ClearStorageLock exampleEnv 0 2 exampleHost =
       (3, UseGasAndAddTracedGas exampleEnv setStorageLockName 10 exampleHost)"
    using inst [THEN conjunct2, THEN mp, OF key]
    by (simp add: exampleEnv_sel exampleSetProtectedStorage_def Let_def)
  show ?thesis
    using key val by (rule conjI)
qed

end
